theory Spec2Isabelle
  imports Main "HOL-Library.Word"
begin

unbundle bit_operations_syntax

section \<open>Bytes, errors and the library functions the RPC server calls\<close>

type_synonym byte = "8 word"
type_synonym bytes = "byte list"

text \<open>
  Go errors are values. The constructors below are the errors that rpcserver.go builds
  itself (\<open>errors.New\<close> with its message, the two \<open>fmt.Errorf\<close> diagnostics with the
  numbers they print, \<open>ErrServerNotActive\<close>) and the two errors of \<open>encoding/hex\<close>.
  Errors of collaborators outside rpcserver.go are \<open>ErrorsNew\<close> values of whatever
  message the collaborator chooses.
\<close>

datatype error =
    ErrorsNew string
  | InvalidByteError char
  | ErrLength
  | ErrPaymentTooLarge "64 word" "64 word"
  | ErrNotEnoughOutboundCapacity "64 word" "64 word"
  | ErrServerNotActive

text \<open>
  Go's builtin \<open>copy(dst, src)\<close> on byte slices: the first \<open>min (len dst) (len src)\<close>
  elements of \<open>dst\<close> are overwritten, the rest of \<open>dst\<close> is kept.
\<close>

definition copy_bytes :: "bytes \<Rightarrow> bytes \<Rightarrow> bytes" where
  "copy_bytes dst src = take (length dst) src @ drop (length src) dst"

text \<open>
  \<open>encoding/hex\<close>: \<open>fromHexChar\<close> and \<open>DecodeString\<close>. A pair of hex digits gives one byte;
  a character that is not a hex digit is an \<open>InvalidByteError\<close>, an odd number of digits is
  \<open>ErrLength\<close>.
\<close>

definition fromHexChar :: "char \<Rightarrow> byte option" where
  "fromHexChar c =
     (let n = (of_char c :: nat) in
      if 48 \<le> n \<and> n \<le> 57 then Some (of_nat (n - 48))
      else if 97 \<le> n \<and> n \<le> 102 then Some (of_nat (n - 97 + 10))
      else if 65 \<le> n \<and> n \<le> 70 then Some (of_nat (n - 65 + 10))
      else None)"

fun hexDecodeString :: "string \<Rightarrow> error + bytes" where
  "hexDecodeString [] = Inr []"
| "hexDecodeString [p] =
     (case fromHexChar p of None \<Rightarrow> Inl (InvalidByteError p) | Some a \<Rightarrow> Inl ErrLength)"
| "hexDecodeString (p # q # rest) =
     (case fromHexChar p of
        None \<Rightarrow> Inl (InvalidByteError p)
      | Some a \<Rightarrow>
          (case fromHexChar q of
             None \<Rightarrow> Inl (InvalidByteError q)
           | Some b \<Rightarrow>
               (case hexDecodeString rest of
                  Inl e \<Rightarrow> Inl e
                | Inr bs \<Rightarrow> Inr ((push_bit 4 a OR b) # bs))))"

section \<open>The request, the invoice and the payment intent\<close>

text \<open>
  A route is opaque to rpcserver.go (it is handed to the router as it came): the list of its
  hops' channel ids stands for it. Route hints and feature vectors are opaque in the same way.
\<close>

type_synonym Route = "64 word list"
type_synonym HopHint = "64 word"
type_synonym FeatureVector = "32 word list"
type_synonym CustomSet = "(64 word \<times> bytes) list"

datatype FeeLimit = Fixed "64 word" | FixedMAtoms "64 word" | Percent "64 word"

text \<open>
  \<open>rpcPaymentRequest\<close>: the fields of \<open>lnrpc.SendRequest\<close> that \<open>extractPaymentIntent\<close>
  reads, and the wrapper's \<open>route\<close> (here \<open>route_req\<close>). \<open>Amt\<close>, \<open>AmtMAtoms\<close> are int64,
  \<open>FinalCltvDelta\<close> is int32, \<open>CltvLimit\<close> uint32, \<open>OutgoingChanId\<close> uint64.
\<close>

record rpcPaymentRequest =
  Dest :: bytes
  DestString :: string
  Amt :: "64 word"
  AmtMAtoms :: "64 word"
  PaymentHash :: bytes
  PaymentHashString :: string
  PaymentRequest :: string
  FinalCltvDelta :: "32 word"
  FeeLimit :: "FeeLimit option"
  OutgoingChanId :: "64 word"
  LastHopPubkey :: bytes
  CltvLimit :: "32 word"
  DestCustomRecords :: CustomSet
  AllowSelfPayment :: bool
  DestFeatures :: "32 word list"
  IgnoreMaxOutboundAmt :: bool
  route_req :: "Route option"

text \<open>
  The fields of a decoded \<open>zpay32.Invoice\<close> that \<open>extractPaymentIntent\<close> reads.
  \<open>inv_Destination\<close> is \<open>Destination.SerializeCompressed()\<close>, \<open>inv_MinFinalCLTVExpiry\<close>
  is what the method \<open>MinFinalCLTVExpiry()\<close> returns (uint64).
\<close>

record Invoice =
  inv_PaymentHash :: bytes
  inv_MilliAt :: "64 word option"
  inv_Destination :: bytes
  inv_MinFinalCLTVExpiry :: "64 word"
  inv_RouteHints :: "HopHint list list"
  inv_Features :: "FeatureVector option"
  inv_PaymentAddr :: "bytes option"

text \<open>
  \<open>rpcPaymentIntent\<close>. \<open>mat\<close> and \<open>feeLimit\<close> are \<open>lnwire.MilliAtom\<close> (uint64), \<open>dest\<close> is a
  \<open>route.Vertex\<close> (33 bytes), \<open>rHash\<close> is \<open>[32]byte\<close>. The zero value is \<open>zeroIntent\<close>.
\<close>

record rpcPaymentIntent =
  mat :: "64 word"
  feeLimit :: "64 word"
  cltvLimit :: "32 word"
  dest :: bytes
  rHash :: bytes
  cltvDelta :: "16 word"
  routeHints :: "HopHint list list"
  outgoingChannelID :: "64 word option"
  lastHop :: "bytes option"
  ignoreMaxOutboundAmt :: bool
  destFeatures :: "FeatureVector option"
  paymentAddr :: "bytes option"
  payReq :: bytes
  destCustomRecords :: CustomSet
  route :: "Route option"

definition zeroIntent :: rpcPaymentIntent where
  "zeroIntent =
     \<lparr> mat = 0, feeLimit = 0, cltvLimit = 0, dest = replicate 33 0, rHash = replicate 32 0,
       cltvDelta = 0, routeHints = [], outgoingChannelID = None, lastHop = None,
       ignoreMaxOutboundAmt = False, destFeatures = None, paymentAddr = None, payReq = [],
       destCustomRecords = [], route = None \<rparr>"

section \<open>The server and its collaborators\<close>

text \<open>
  Channels of the channel database, as \<open>checkCanSendPayment\<close> reads them:
  \<open>LocalBalance\<close> is \<open>LocalCommitment.LocalBalance\<close> (milli-atoms, uint64),
  \<open>ChanReserve\<close> is \<open>LocalChanCfg.ChannelConstraints.ChanReserve\<close> (atoms, int64).
\<close>

type_synonym OutPoint = "bytes \<times> 32 word"

record OpenChannel =
  IdentityPub :: bytes
  FundingOutpoint :: OutPoint
  LocalBalance :: "64 word"
  ChanReserve :: "64 word"

datatype ChannelLink = ChannelLink (EligibleToForward: bool)

text \<open>What \<open>dispatchPaymentIntent\<close> hands to \<open>chanRouter.SendPayment\<close>.\<close>

record LightningPayment =
  pay_Target :: bytes
  pay_Amount :: "64 word"
  pay_FinalCLTVDelta :: "16 word"
  pay_FeeLimit :: "64 word"
  pay_CltvLimit :: "32 word"
  pay_PaymentHash :: bytes
  pay_RouteHints :: "HopHint list list"
  pay_OutgoingChannelID :: "64 word option"
  pay_LastHop :: "bytes option"
  pay_PaymentRequest :: bytes
  pay_DestCustomRecords :: CustomSet
  pay_DestFeatures :: "FeatureVector option"
  pay_PaymentAddr :: "bytes option"

text \<open>
  \<open>rpcServer\<close>: the receiver of the methods, with everything they reach through it. The
  functions of other packages of the repository (lnrpc, routerrpc, zpay32, record, route,
  lnwire, chainfee, channeldb, htlcswitch, routing) are not part of rpcserver.go; they are
  fields here, so every theorem below holds whatever they compute. Package variables and
  configuration that the methods read (\<open>MaxPaymentMAtoms\<close>, \<open>cfg.MaxOutgoingCltvExpiry\<close>,
  \<open>zpay32.DefaultFinalCLTVDelta\<close>, \<open>input.HTLCOutputSize\<close>) are fields too.
  \<open>FindPeer\<close> gives the error of \<open>r.server.FindPeer\<close> (None: connected),
  \<open>ChannelID\<close> the id that \<open>graph.ChannelID\<close> returns (its error is dropped by the caller).
\<close>

record rpcServer =
  selfNode :: bytes
  MaxPaymentMAtoms :: "64 word"
  MaxOutgoingCltvExpiry :: "32 word"
  DefaultFinalCLTVDelta :: "16 word"
  NewVertexFromBytes :: "bytes \<Rightarrow> error + bytes"
  ValidateCLTVLimit :: "32 word \<Rightarrow> 32 word \<Rightarrow> error + 32 word"
  CustomSetValidate :: "CustomSet \<Rightarrow> error option"
  Decode :: "string \<Rightarrow> error + Invoice"
  ValidatePayReqExpiry :: "Invoice \<Rightarrow> error option"
  UnmarshallAmt :: "64 word \<Rightarrow> 64 word \<Rightarrow> error + 64 word"
  CalculateFeeLimit :: "FeeLimit option \<Rightarrow> 64 word \<Rightarrow> 64 word"
  UnmarshalFeatures :: "32 word list \<Rightarrow> error + FeatureVector option"
  Started :: bool
  FetchAllOpenChannels :: "error + OpenChannel list"
  RelayFeePerKB :: "64 word"
  FeeForSize :: "64 word \<Rightarrow> 64 word \<Rightarrow> 64 word"
  HTLCOutputSize :: "64 word"
  ToAtoms :: "64 word \<Rightarrow> 64 word"
  FindPeer :: "bytes \<Rightarrow> error option"
  NewChanIDFromOutPoint :: "OutPoint \<Rightarrow> bytes"
  GetLink :: "bytes \<Rightarrow> error + ChannelLink"
  ChannelID :: "OutPoint \<Rightarrow> 64 word"
  SendPayment :: "LightningPayment \<Rightarrow> bytes \<times> Route option \<times> error option"
  SendToRoute :: "bytes \<Rightarrow> Route \<Rightarrow> bytes \<times> error option"
  MarshallRoute :: "Route option \<Rightarrow> error + Route option"

section \<open>extractPaymentIntent\<close>

text \<open>
  The function returns the intent as far as it was filled together with the error, as the Go
  function does (\<open>return payIntent, err\<close>); \<open>None\<close> is the nil error.
\<close>

text \<open>The closure \<open>validateDest\<close> (lines 3313-3323).\<close>

definition validateDest :: "rpcServer \<Rightarrow> rpcPaymentRequest \<Rightarrow> bytes \<Rightarrow> error option" where
  "validateDest r rpcPayReq d =
     (if AllowSelfPayment rpcPayReq then None
      else if d = selfNode r then Some (ErrorsNew ''self-payments not allowed'')
      else None)"

text \<open>The branch of a request with a prebuilt route (lines 3261-3279).\<close>

definition extractRoute ::
  "rpcPaymentRequest \<Rightarrow> rpcPaymentIntent \<Rightarrow> Route \<Rightarrow> rpcPaymentIntent \<times> error option" where
  "extractRoute rpcPayReq payIntent rt =
     (if PaymentHashString rpcPayReq \<noteq> [] then
        (case hexDecodeString (PaymentHashString rpcPayReq) of
           Inl err \<Rightarrow> (payIntent, Some err)
         | Inr paymentHash \<Rightarrow>
             (payIntent\<lparr>rHash := copy_bytes (rHash payIntent) paymentHash, route := Some rt\<rparr>,
              None))
      else
        (payIntent\<lparr>rHash := copy_bytes (rHash payIntent) (PaymentHash rpcPayReq),
                   route := Some rt\<rparr>, None))"

text \<open>The branch of a request with an encoded invoice (lines 3328-3387).\<close>

definition extractInvoice ::
  "rpcServer \<Rightarrow> rpcPaymentRequest \<Rightarrow> rpcPaymentIntent \<Rightarrow> rpcPaymentIntent \<times> error option" where
  "extractInvoice r rpcPayReq payIntent =
     (case Decode r (PaymentRequest rpcPayReq) of
        Inl err \<Rightarrow> (payIntent, Some err)
      | Inr invoice \<Rightarrow>
          (let payIntent = payIntent\<lparr>rHash := copy_bytes (rHash payIntent) (inv_PaymentHash invoice)\<rparr> in
           case ValidatePayReqExpiry r invoice of
             Some err \<Rightarrow> (payIntent, Some err)
           | None \<Rightarrow>
               (let amount =
                      (case inv_MilliAt invoice of
                         None \<Rightarrow>
                           (case UnmarshallAmt r (Amt rpcPayReq) (AmtMAtoms rpcPayReq) of
                              Inl err \<Rightarrow> Inl err
                            | Inr amt \<Rightarrow>
                                if amt = 0 then
                                  Inl (ErrorsNew
                                    ''amount must be specified when paying a zero amount invoice'')
                                else Inr amt)
                       | Some m \<Rightarrow> Inr m)
                in case amount of
                     Inl err \<Rightarrow> (payIntent, Some err)
                   | Inr amt \<Rightarrow>
                       (let payIntent = payIntent\<lparr>mat := amt\<rparr>;
                            payIntent = payIntent
                              \<lparr>feeLimit := CalculateFeeLimit r (FeeLimit rpcPayReq) (mat payIntent)\<rparr>;
                            payIntent = payIntent
                              \<lparr>rHash := copy_bytes (rHash payIntent) (inv_PaymentHash invoice)\<rparr>;
                            payIntent = payIntent
                              \<lparr>dest := copy_bytes (dest payIntent) (inv_Destination invoice)\<rparr>;
                            payIntent = payIntent
                              \<lparr>cltvDelta := ucast (inv_MinFinalCLTVExpiry invoice),
                               routeHints := inv_RouteHints invoice,
                               payReq := map of_char (PaymentRequest rpcPayReq),
                               destFeatures := inv_Features invoice,
                               paymentAddr := inv_PaymentAddr invoice\<rparr>
                        in case validateDest r rpcPayReq (dest payIntent) of
                             Some err \<Rightarrow> (payIntent, Some err)
                           | None \<Rightarrow> (payIntent, None)))))"

text \<open>
  The rest of the function: the payment given by its fields (lines 3389-3469). Two
  assignments take both results of a call (\<open>payIntent.mat, err = ...\<close> and
  \<open>payIntent.destFeatures, err = ...\<close>); when the call fails the field gets the zero value
  that a Go function returns beside its error.
\<close>

definition extractManual ::
  "rpcServer \<Rightarrow> rpcPaymentRequest \<Rightarrow> rpcPaymentIntent \<Rightarrow> rpcPaymentIntent \<times> error option" where
  "extractManual r rpcPayReq payIntent =
     (case (if length (Dest rpcPayReq) \<noteq> 0 then Inr (Dest rpcPayReq)
            else hexDecodeString (DestString rpcPayReq)) of
        Inl err \<Rightarrow> (payIntent, Some err)
      | Inr pubBytes \<Rightarrow>
          if length pubBytes \<noteq> 33 then (payIntent, Some (ErrorsNew ''invalid key length''))
          else
            (let payIntent = payIntent\<lparr>dest := copy_bytes (dest payIntent) pubBytes\<rparr> in
             case validateDest r rpcPayReq (dest payIntent) of
               Some err \<Rightarrow> (payIntent, Some err)
             | None \<Rightarrow>
                 (case UnmarshallAmt r (Amt rpcPayReq) (AmtMAtoms rpcPayReq) of
                    Inl err \<Rightarrow> (payIntent\<lparr>mat := 0\<rparr>, Some err)
                  | Inr amt \<Rightarrow>
                      (let payIntent = payIntent\<lparr>mat := amt\<rparr>;
                           payIntent = payIntent
                             \<lparr>feeLimit := CalculateFeeLimit r (FeeLimit rpcPayReq) (mat payIntent)\<rparr>;
                           payIntent = payIntent
                             \<lparr>cltvDelta :=
                                (if FinalCltvDelta rpcPayReq \<noteq> 0
                                 then ucast (FinalCltvDelta rpcPayReq)
                                 else DefaultFinalCLTVDelta r)\<rparr>
                       in case (if PaymentHashString rpcPayReq \<noteq> []
                                then hexDecodeString (PaymentHashString rpcPayReq)
                                else Inr (PaymentHash rpcPayReq)) of
                            Inl err \<Rightarrow> (payIntent, Some err)
                          | Inr paymentHash \<Rightarrow>
                              (let payIntent = payIntent
                                     \<lparr>rHash := copy_bytes (rHash payIntent) paymentHash\<rparr>
                               in case UnmarshalFeatures r (DestFeatures rpcPayReq) of
                                    Inl err \<Rightarrow> (payIntent\<lparr>destFeatures := None\<rparr>, Some err)
                                  | Inr fv \<Rightarrow>
                                      (let payIntent = payIntent\<lparr>destFeatures := fv\<rparr> in
                                       if MaxPaymentMAtoms r < mat payIntent then
                                         (payIntent,
                                          Some (ErrPaymentTooLarge (mat payIntent)
                                                  (MaxPaymentMAtoms r)))
                                       else (payIntent, None)))))))"

text \<open>
  The restrictions common to a payment by invoice and one by its fields (lines 3281-3311):
  the outgoing channel, the last hop, the CLTV limit and the custom records.
\<close>

definition commonRestrictions ::
  "rpcServer \<Rightarrow> rpcPaymentRequest \<Rightarrow> rpcPaymentIntent \<Rightarrow> rpcPaymentIntent \<times> error option" where
  "commonRestrictions r rpcPayReq payIntent =
     (let payIntent =
            (if OutgoingChanId rpcPayReq \<noteq> 0
             then payIntent\<lparr>outgoingChannelID := Some (OutgoingChanId rpcPayReq)\<rparr>
             else payIntent)
      in case (if length (LastHopPubkey rpcPayReq) > 0
               then map_sum id Some (NewVertexFromBytes r (LastHopPubkey rpcPayReq))
               else Inr (lastHop payIntent)) of
           Inl err \<Rightarrow> (payIntent, Some err)
         | Inr lh \<Rightarrow>
             (let payIntent = payIntent\<lparr>lastHop := lh\<rparr> in
              case ValidateCLTVLimit r (CltvLimit rpcPayReq) (MaxOutgoingCltvExpiry r) of
                Inl err \<Rightarrow> (payIntent, Some err)
              | Inr limit \<Rightarrow>
                  (let payIntent = payIntent\<lparr>cltvLimit := limit\<rparr> in
                   case CustomSetValidate r (DestCustomRecords rpcPayReq) of
                     Some err \<Rightarrow> (payIntent, Some err)
                   | None \<Rightarrow>
                       (payIntent\<lparr>destCustomRecords := DestCustomRecords rpcPayReq\<rparr>,
                        None))))"

text \<open>
  \<open>extractPaymentIntent\<close> (lines 3255-3470): the route branch first; then the common
  restrictions; then the invoice branch when \<open>PaymentRequest\<close> is not empty, the manual one
  otherwise.
\<close>

definition extractPaymentIntent ::
  "rpcServer \<Rightarrow> rpcPaymentRequest \<Rightarrow> rpcPaymentIntent \<times> error option" where
  "extractPaymentIntent r rpcPayReq =
     (let payIntent = zeroIntent\<lparr>ignoreMaxOutboundAmt := IgnoreMaxOutboundAmt rpcPayReq\<rparr> in
      case route_req rpcPayReq of
        Some rt \<Rightarrow> extractRoute rpcPayReq payIntent rt
      | None \<Rightarrow>
          (case commonRestrictions r rpcPayReq payIntent of
             (payIntent, Some err) \<Rightarrow> (payIntent, Some err)
           | (payIntent, None) \<Rightarrow>
               if PaymentRequest rpcPayReq \<noteq> []
               then extractInvoice r rpcPayReq payIntent
               else extractManual r rpcPayReq payIntent))"

text \<open>
  The payment hash that a request supplies, as the route branch and the manual branch read
  it: the hex string when there is one, the raw bytes otherwise.
\<close>

definition suppliedHash :: "rpcPaymentRequest \<Rightarrow> error + bytes" where
  "suppliedHash req =
     (if PaymentHashString req \<noteq> [] then hexDecodeString (PaymentHashString req)
      else Inr (PaymentHash req))"

section \<open>checkCanSendPayment\<close>

text \<open>
  The loop over the open channels (lines 3516-3573), with the two variables it updates,
  \<open>maxChanCap\<close> and \<open>maxChanID\<close>, and what follows the loop when no channel was enough.
  \<open>dcrutil.Amount\<close> is int64: the comparisons are signed, the subtractions wrap.
\<close>

fun channelLoop ::
  "rpcServer \<Rightarrow> 64 word \<Rightarrow> OpenChannel list \<Rightarrow> 64 word \<Rightarrow> 64 word \<Rightarrow> error option" where
  "channelLoop r amt [] maxChanCap maxChanID =
     (if maxChanID = 0 then Some (ErrorsNew ''no online channels found'')
      else Some (ErrNotEnoughOutboundCapacity (amt - maxChanCap) maxChanID))"
| "channelLoop r amt (channel # rest) maxChanCap maxChanID =
     (let chanPoint = FundingOutpoint channel in
      case FindPeer r (IdentityPub channel) of
        Some err \<Rightarrow> channelLoop r amt rest maxChanCap maxChanID
      | None \<Rightarrow>
          (case GetLink r (NewChanIDFromOutPoint r chanPoint) of
             Inl err \<Rightarrow> channelLoop r amt rest maxChanCap maxChanID
           | Inr link \<Rightarrow>
               if \<not> EligibleToForward link then channelLoop r amt rest maxChanCap maxChanID
               else
                 (let capacity = ToAtoms r (LocalBalance channel) - ChanReserve channel in
                  if amt \<le>s capacity then None
                  else if maxChanCap <s capacity
                       then channelLoop r amt rest capacity (ChannelID r chanPoint)
                       else channelLoop r amt rest maxChanCap maxChanID)))"

definition checkCanSendPayment :: "rpcServer \<Rightarrow> rpcPaymentIntent \<Rightarrow> error option" where
  "checkCanSendPayment r payIntent =
     (if ignoreMaxOutboundAmt payIntent then None
      else
        (case FetchAllOpenChannels r of
           Inl err \<Rightarrow> Some err
         | Inr openChannels \<Rightarrow>
             if length openChannels = 0 then Some (ErrorsNew ''no open channels'')
             else
               (let relayFee = RelayFeePerKB r;
                    htlcFee = FeeForSize r relayFee (HTLCOutputSize r);
                    amt = ToAtoms r (mat payIntent) + htlcFee
                in channelLoop r amt openChannels 0 0)))"

text \<open>
  The two conditions the loop tests on a channel, named for the statements below: the channel
  is eligible (peer connected, link known to the switch and eligible to forward), and its
  outbound capacity as the loop computes it.
\<close>

definition eligible :: "rpcServer \<Rightarrow> OpenChannel \<Rightarrow> bool" where
  "eligible r channel =
     (case FindPeer r (IdentityPub channel) of
        Some err \<Rightarrow> False
      | None \<Rightarrow>
          (case GetLink r (NewChanIDFromOutPoint r (FundingOutpoint channel)) of
             Inl err \<Rightarrow> False
           | Inr link \<Rightarrow> EligibleToForward link))"

definition capacity_of :: "rpcServer \<Rightarrow> OpenChannel \<Rightarrow> 64 word" where
  "capacity_of r channel = ToAtoms r (LocalBalance channel) - ChanReserve channel"

definition amt_of :: "rpcServer \<Rightarrow> rpcPaymentIntent \<Rightarrow> 64 word" where
  "amt_of r payIntent =
     ToAtoms r (mat payIntent) + FeeForSize r (RelayFeePerKB r) (HTLCOutputSize r)"

section \<open>dispatchPaymentIntent and sendPaymentSync\<close>

text \<open>
  The calls into the routing engine are returned beside the result, in the order made, so that
  "no routing engine call is made" is a statement about this list.
\<close>

datatype routerCall = CallSendPayment LightningPayment | CallSendToRoute bytes Route

record paymentIntentResponse =
  resp_Route :: "Route option"
  resp_Preimage :: bytes
  resp_Err :: "error option"

record SendResponse =
  sr_PaymentError :: "error option"
  sr_PaymentHash :: bytes
  sr_PaymentPreimage :: bytes
  sr_PaymentRoute :: "Route option"

definition dispatchPaymentIntent ::
  "rpcServer \<Rightarrow> rpcPaymentIntent \<Rightarrow> (paymentIntentResponse \<times> error option) \<times> routerCall list" where
  "dispatchPaymentIntent r payIntent =
     (case checkCanSendPayment r payIntent of
        Some err \<Rightarrow>
          ((\<lparr>resp_Route = None, resp_Preimage = replicate 32 0, resp_Err = Some err\<rparr>, None), [])
      | None \<Rightarrow>
          (case route payIntent of
             None \<Rightarrow>
               (let payment =
                      \<lparr> pay_Target = dest payIntent, pay_Amount = mat payIntent,
                        pay_FinalCLTVDelta = cltvDelta payIntent,
                        pay_FeeLimit = feeLimit payIntent, pay_CltvLimit = cltvLimit payIntent,
                        pay_PaymentHash = rHash payIntent,
                        pay_RouteHints = routeHints payIntent,
                        pay_OutgoingChannelID = outgoingChannelID payIntent,
                        pay_LastHop = lastHop payIntent, pay_PaymentRequest = payReq payIntent,
                        pay_DestCustomRecords = destCustomRecords payIntent,
                        pay_DestFeatures = destFeatures payIntent,
                        pay_PaymentAddr = paymentAddr payIntent \<rparr>
                in case SendPayment r payment of
                     (preImage, rt, routerErr) \<Rightarrow>
                       (case routerErr of
                          Some err \<Rightarrow>
                            ((\<lparr>resp_Route = None, resp_Preimage = replicate 32 0,
                               resp_Err = Some err\<rparr>, None), [CallSendPayment payment])
                        | None \<Rightarrow>
                            ((\<lparr>resp_Route = rt, resp_Preimage = preImage, resp_Err = None\<rparr>,
                              None), [CallSendPayment payment])))
           | Some rt \<Rightarrow>
               (case SendToRoute r (rHash payIntent) rt of
                  (preImage, routerErr) \<Rightarrow>
                    (case routerErr of
                       Some err \<Rightarrow>
                         ((\<lparr>resp_Route = None, resp_Preimage = replicate 32 0,
                            resp_Err = Some err\<rparr>, None), [CallSendToRoute (rHash payIntent) rt])
                     | None \<Rightarrow>
                         ((\<lparr>resp_Route = Some rt, resp_Preimage = preImage, resp_Err = None\<rparr>,
                           None), [CallSendToRoute (rHash payIntent) rt])))))"

definition sendPaymentSync ::
  "rpcServer \<Rightarrow> rpcPaymentRequest \<Rightarrow> (SendResponse option \<times> error option) \<times> routerCall list" where
  "sendPaymentSync r nextPayment =
     (if \<not> Started r then ((None, Some ErrServerNotActive), [])
      else
        (case extractPaymentIntent r nextPayment of
           (payIntent, Some err) \<Rightarrow> ((None, Some err), [])
         | (payIntent, None) \<Rightarrow>
             (case dispatchPaymentIntent r payIntent of
                ((resp, saveErr), calls) \<Rightarrow>
                  (case saveErr of
                     Some err \<Rightarrow> ((None, Some err), calls)
                   | None \<Rightarrow>
                       (case resp_Err resp of
                          Some err \<Rightarrow>
                            ((Some \<lparr>sr_PaymentError = Some err, sr_PaymentHash = rHash payIntent,
                                     sr_PaymentPreimage = [], sr_PaymentRoute = None\<rparr>, None),
                             calls)
                        | None \<Rightarrow>
                            (case MarshallRoute r (resp_Route resp) of
                               Inl err \<Rightarrow> ((None, Some err), calls)
                             | Inr rpcRoute \<Rightarrow>
                                 ((Some \<lparr>sr_PaymentError = None,
                                          sr_PaymentHash = rHash payIntent,
                                          sr_PaymentPreimage = resp_Preimage resp,
                                          sr_PaymentRoute = rpcRoute\<rparr>, None), calls)))))))"

section \<open>Channels, select and the relay loops\<close>

text \<open>
  A Go channel is the queue of the values sent and not yet received; a \<open>select\<close> may take
  any of its cases that can proceed and blocks while none can. Which ready case it takes is
  the scheduler's choice, so each \<open>select\<close> below is a function of the case taken: the result
  is \<open>None\<close> when that case cannot proceed in the given state (the select cannot take it),
  and a select none of whose cases gives a result is blocked.

  The two feeds that a channel operation hands to its RPC method, and the server's quit
  signal (\<open>quit\<close> is True once \<open>r.quit\<close> is closed):
\<close>

record 'u feeds =
  updateChan :: "'u list"
  errChan :: "error list"
  quit :: bool

text \<open>The cases of the selects of CloseChannel (line 1934) and OpenChannelSync (line 1693).\<close>

datatype selectCase = RecvErr | RecvUpdate | RecvQuit

subsection \<open>CloseChannel: the feeds of a force close and the relay loop\<close>

text \<open>
  The updates that CloseChannel's loop can receive: the two types that
  \<open>createRPCCloseUpdate\<close> knows, and any other value (\<open>updateChan\<close> carries
  \<open>interface{}\<close>).
\<close>

datatype closeUpdate =
    pendingUpdate bytes "32 word"
  | channelCloseUpdate bytes bool
  | otherUpdate

datatype CloseStatusUpdate = ClosePending bytes "32 word" | ChanClose bytes

definition createRPCCloseUpdate :: "closeUpdate \<Rightarrow> error + CloseStatusUpdate" where
  "createRPCCloseUpdate update =
     (case update of
        channelCloseUpdate closingTxid success \<Rightarrow> Inr (ChanClose closingTxid)
      | pendingUpdate txid outputIndex \<Rightarrow> Inr (ClosePending txid outputIndex)
      | otherUpdate \<Rightarrow> Inl (ErrorsNew ''unknown close status update''))"

text \<open>
  The state of one CloseChannel call from the loop on: the feeds, the updates delivered on
  \<open>updateStream\<close> so far, and \<open>returned\<close>: \<open>None\<close> while the loop runs, \<open>Some err\<close> once the
  method has returned \<open>err\<close> (\<open>Some None\<close>: it returned nil).
\<close>

record closeCall = "closeUpdate feeds" +
  updateStream :: "CloseStatusUpdate list"
  returned :: "error option option"

text \<open>
  One iteration of the loop (lines 1933-1967), given the case the select takes and what
  \<open>updateStream.Send\<close> returns if the iteration calls it.
\<close>

definition closeLoopIteration ::
  "selectCase \<Rightarrow> error option \<Rightarrow> closeCall \<Rightarrow> closeCall option" where
  "closeLoopIteration c sendErr s =
     (case c of
        RecvErr \<Rightarrow>
          (case errChan s of
             [] \<Rightarrow> None
           | err # es \<Rightarrow> Some (s\<lparr>errChan := es, returned := Some (Some err)\<rparr>))
      | RecvUpdate \<Rightarrow>
          (case updateChan s of
             [] \<Rightarrow> None
           | closingUpdate # us \<Rightarrow>
               (let s = s\<lparr>updateChan := us\<rparr> in
                case createRPCCloseUpdate closingUpdate of
                  Inl err \<Rightarrow> Some (s\<lparr>returned := Some (Some err)\<rparr>)
                | Inr rpcClosingUpdate \<Rightarrow>
                    (case sendErr of
                       Some err \<Rightarrow> Some (s\<lparr>returned := Some (Some err)\<rparr>)
                     | None \<Rightarrow>
                         (let s = s\<lparr>updateStream := updateStream s @ [rpcClosingUpdate]\<rparr> in
                          case closingUpdate of
                            channelCloseUpdate closingTxid success \<Rightarrow>
                              Some (s\<lparr>returned := Some None\<rparr>)
                          | _ \<Rightarrow> Some s))))
      | RecvQuit \<Rightarrow> (if quit s then Some (s\<lparr>returned := Some None\<rparr>) else None))"

text \<open>
  What happens during a force-close call, one event at a time: the loop runs an iteration;
  the goroutine \<open>waitForChanToClose\<close> runs the closure it was given (lines 1860-1867), which
  sends the channel-close update on \<open>updateChan\<close> (capacity 2, line 1852); the goroutine
  reports an error on \<open>errChan\<close> (capacity 1, line 1857); the server's quit signal fires.
  \<open>waitForChanToClose\<close> itself is not in rpcserver.go: it may do either any number of times,
  in any order, so far as the channels' capacities allow.
\<close>

datatype closeEvent =
    LoopSelects selectCase "error option"
  | CallbackRuns
  | GoroutineFails error
  | QuitFires

definition closeStep :: "bytes \<Rightarrow> closeEvent \<Rightarrow> closeCall \<Rightarrow> closeCall option" where
  "closeStep closingTxid ev s =
     (case ev of
        LoopSelects c sendErr \<Rightarrow>
          (if returned s \<noteq> None then None else closeLoopIteration c sendErr s)
      | CallbackRuns \<Rightarrow>
          (if length (updateChan s) < 2
           then Some (s\<lparr>updateChan := updateChan s @ [channelCloseUpdate closingTxid True]\<rparr>)
           else None)
      | GoroutineFails err \<Rightarrow>
          (if length (errChan s) < 1 then Some (s\<lparr>errChan := errChan s @ [err]\<rparr>) else None)
      | QuitFires \<Rightarrow> Some (s\<lparr>quit := True\<rparr>))"

fun closeRun :: "bytes \<Rightarrow> closeEvent list \<Rightarrow> closeCall \<Rightarrow> closeCall option" where
  "closeRun closingTxid [] s = Some s"
| "closeRun closingTxid (ev # evs) s =
     (case closeStep closingTxid ev s of
        None \<Rightarrow> None
      | Some s' \<Rightarrow> closeRun closingTxid evs s')"

text \<open>
  The state in which a force close enters the loop (lines 1852-1857): the pending update with
  the closing transaction's id is already in \<open>updateChan\<close>, \<open>errChan\<close> is empty.
\<close>

definition forceCloseStart :: "bytes \<Rightarrow> closeCall" where
  "forceCloseStart closingTxid =
     \<lparr> updateChan = [pendingUpdate closingTxid 0], errChan = [], quit = False,
       updateStream = [], returned = None \<rparr>"

text \<open>
  What holds of a force-close call at every moment (the proofs below show it): nothing was
  delivered yet and the pending update is still first in \<open>updateChan\<close>, or it was taken and
  the call has returned without delivering it, or exactly the pending update was delivered,
  or the pending update and then the channel-close update were delivered and the call has
  returned. Behind the pending update \<open>updateChan\<close> holds channel-close updates only.
\<close>

definition forceCloseInv :: "bytes \<Rightarrow> closeCall \<Rightarrow> bool" where
  "forceCloseInv closingTxid s =
     ((updateStream s = [] \<and>
         (case updateChan s of
            [] \<Rightarrow> False
          | u # us \<Rightarrow>
              u = pendingUpdate closingTxid 0 \<and>
              list_all (\<lambda>u. u = channelCloseUpdate closingTxid True) us)) \<or>
      (updateStream s = [] \<and> returned s \<noteq> None \<and>
         list_all (\<lambda>u. u = channelCloseUpdate closingTxid True) (updateChan s)) \<or>
      (updateStream s = [ClosePending closingTxid 0] \<and>
         list_all (\<lambda>u. u = channelCloseUpdate closingTxid True) (updateChan s)) \<or>
      (updateStream s = [ClosePending closingTxid 0, ChanClose closingTxid] \<and>
         returned s \<noteq> None))"

subsection \<open>OpenChannelSync: waiting for the first update\<close>

datatype OpenStatusUpdate = ChanPending bytes "32 word" | ChanOpenUpdate

record ChannelPoint =
  FundingTxidBytes :: bytes
  OutputIndex :: "32 word"

text \<open>
  The select of OpenChannelSync (lines 1693-1720), entered once \<open>r.server.OpenChannel\<close> has
  returned the two feeds. The method returns a channel point and an error; the type assertion
  of line 1709 panics on an update that is not a pending one.
\<close>

datatype openSyncResult = Returns "ChannelPoint option" "error option" | Panics

definition openChannelSyncSelect ::
  "selectCase \<Rightarrow> OpenStatusUpdate feeds \<Rightarrow> openSyncResult option" where
  "openChannelSyncSelect c s =
     (case c of
        RecvErr \<Rightarrow>
          (case errChan s of [] \<Rightarrow> None | err # es \<Rightarrow> Some (Returns None (Some err)))
      | RecvUpdate \<Rightarrow>
          (case updateChan s of
             [] \<Rightarrow> None
           | fundingUpdate # us \<Rightarrow>
               (case fundingUpdate of
                  ChanPending txid outputIndex \<Rightarrow>
                    Some (Returns
                      (Some \<lparr>FundingTxidBytes = txid, OutputIndex = outputIndex\<rparr>) None)
                | ChanOpenUpdate \<Rightarrow> Some Panics))
      | RecvQuit \<Rightarrow> (if quit s then Some (Returns None None) else None))"

subsection \<open>ChannelAcceptor: demultiplexReq\<close>

text \<open>
  \<open>time.Duration\<close> counts nanoseconds. \<open>defaultAcceptorTimeout\<close> is a package variable
  (line 86): the value below is the one it is initialised with, and the selects take the
  value it has when \<open>demultiplexReq\<close> runs as their argument \<open>timeout\<close>.
\<close>

definition Second :: int where
  "Second = 1000000000"

definition defaultAcceptorTimeout :: int where
  "defaultAcceptorTimeout = 15 * Second"

text \<open>
  What a select of \<open>demultiplexReq\<close> (lines 5705-5743) finds when it looks: the time elapsed
  since \<open>time.After(defaultAcceptorTimeout)\<close> was called (the timer's channel is ready once
  the duration has elapsed), whether ChannelAcceptor's loop is receiving on the unbuffered
  \<open>newRequests\<close>, the content of \<open>respChan\<close>, and whether the stream's \<open>quit\<close> and the
  server's \<open>r.quit\<close> are closed.
\<close>

record acceptorWait =
  elapsed :: int
  receiverReady :: bool
  respChan :: "bool list"
  streamQuit :: bool
  serverQuit :: bool

datatype acceptorCase = SendsRequest | RecvResp | Timeout | StreamQuit | ServerQuit

text \<open>
  The first select (lines 5717-5727): \<open>Some None\<close> when the request was sent and the function
  goes on, \<open>Some (Some b)\<close> when it returns \<open>b\<close>. The second select (lines 5731-5742) returns.
\<close>

definition sendSelect :: "int \<Rightarrow> acceptorCase \<Rightarrow> acceptorWait \<Rightarrow> bool option option" where
  "sendSelect timeout c w =
     (case c of
        SendsRequest \<Rightarrow> (if receiverReady w then Some None else None)
      | Timeout \<Rightarrow> (if timeout \<le> elapsed w then Some (Some False) else None)
      | StreamQuit \<Rightarrow> (if streamQuit w then Some (Some False) else None)
      | ServerQuit \<Rightarrow> (if serverQuit w then Some (Some False) else None)
      | RecvResp \<Rightarrow> None)"

definition respSelect :: "int \<Rightarrow> acceptorCase \<Rightarrow> acceptorWait \<Rightarrow> bool option" where
  "respSelect timeout c w =
     (case c of
        RecvResp \<Rightarrow> (case respChan w of [] \<Rightarrow> None | resp # rest \<Rightarrow> Some resp)
      | Timeout \<Rightarrow> (if timeout \<le> elapsed w then Some False else None)
      | StreamQuit \<Rightarrow> (if streamQuit w then Some False else None)
      | ServerQuit \<Rightarrow> (if serverQuit w then Some False else None)
      | SendsRequest \<Rightarrow> None)"

text \<open>
  \<open>demultiplexReq\<close>: the case the first select takes in the state \<open>w1\<close> it finds, then the
  case the second takes in \<open>w2\<close>. \<open>None\<close>: the selects cannot take these cases.
\<close>

definition demultiplexReq ::
  "int \<Rightarrow> acceptorCase \<Rightarrow> acceptorWait \<Rightarrow> acceptorCase \<Rightarrow> acceptorWait \<Rightarrow> bool option" where
  "demultiplexReq timeout c1 w1 c2 w2 =
     (case sendSelect timeout c1 w1 of
        None \<Rightarrow> None
      | Some (Some b) \<Rightarrow> Some b
      | Some None \<Rightarrow> respSelect timeout c2 w2)"

text \<open>
  The life of one ChannelAcceptor call, as a decide call can observe it. \<open>Serving\<close>: the
  loop of lines 5790-5840 runs. \<open>Removing\<close>: the loop has returned (the stream failed, line
  5817 or 5836, or the server quits, line 5838) and the deferred \<open>RemoveAcceptor\<close> of line
  5750 runs; deferred calls run last in, first out, so the \<open>close(quit)\<close> deferred at line
  5701 has not run yet. \<open>Closed\<close>: \<open>close(quit)\<close> has run.

  What a select of \<open>demultiplexReq\<close> finds in each stage: only the running loop receives
  on \<open>newRequests\<close> (when it is at its select), and \<open>quit\<close> is closed in the last stage
  only.
\<close>

datatype acceptorStage = Serving | Removing | Closed

definition streamWait ::
  "acceptorStage \<Rightarrow> bool \<Rightarrow> int \<Rightarrow> bool list \<Rightarrow> bool \<Rightarrow> acceptorWait" where
  "streamWait stage loopAtSelect el resp rquit =
     \<lparr> elapsed = el, receiverReady = (stage = Serving \<and> loopAtSelect), respChan = resp,
       streamQuit = (stage = Closed), serverQuit = rquit \<rparr>"

section \<open>A sample node\<close>

text \<open>
  The statements below hold for every \<open>rpcServer\<close>. For the concrete runs a node is needed
  whose collaborators compute something; the sample node's are the following.
\<close>

text \<open>
  Modelled from the spec: \<open>lnrpc.UnmarshallAmt\<close>, which is not in rpcserver.go. "Amount is
  taken from the manual fields (exactly one of a whole-unit or sub-unit form may be set -
  reject if both conflict)"; a whole unit (atom) is 1000 sub-units (milli-atoms).
\<close>

definition sampleUnmarshallAmt :: "64 word \<Rightarrow> 64 word \<Rightarrow> error + 64 word" where
  "sampleUnmarshallAmt amt amtMAtoms =
     (if amt \<noteq> 0 \<and> amtMAtoms \<noteq> 0
      then Inl (ErrorsNew ''atoms and matoms arguments are mutually exclusive'')
      else if amt \<noteq> 0 then Inr (amt * 1000)
      else Inr amtMAtoms)"

text \<open>
  Modelled from the spec: \<open>routerrpc.ValidateCLTVLimit\<close>, which is not in rpcserver.go.
  The caller's comment (line 3298): "Take the CLTV limit from the request if set, otherwise
  use the max".
\<close>

definition sampleValidateCLTVLimit :: "32 word \<Rightarrow> 32 word \<Rightarrow> error + 32 word" where
  "sampleValidateCLTVLimit val maxVal =
     (if val = 0 then Inr maxVal
      else if maxVal < val then Inl (ErrorsNew ''total time lock exceeds the maximum'')
      else Inr val)"

text \<open>
  Modelled from the spec: \<open>route.NewVertexFromBytes\<close>, which is not in rpcserver.go. A node
  identifier is "exactly a 33-byte compressed public key".
\<close>

definition sampleNewVertexFromBytes :: "bytes \<Rightarrow> error + bytes" where
  "sampleNewVertexFromBytes b =
     (if length b \<noteq> 33 then Inl (ErrorsNew ''invalid route vertex length'') else Inr b)"

text \<open>
  Modelled from the spec: \<open>lnrpc.CalculateFeeLimit\<close>, which is not in rpcserver.go. "compute
  the fee limit from either an explicit cap or a percentage-of-amount default".
\<close>

definition sampleCalculateFeeLimit :: "FeeLimit option \<Rightarrow> 64 word \<Rightarrow> 64 word" where
  "sampleCalculateFeeLimit fl amount =
     (case fl of
        None \<Rightarrow> amount
      | Some (Fixed a) \<Rightarrow> a * 1000
      | Some (FixedMAtoms m) \<Rightarrow> m
      | Some (Percent p) \<Rightarrow> amount * p div 100)"

definition sampleSelf :: bytes where
  "sampleSelf = 2 # replicate 32 1"

definition samplePeer :: bytes where
  "samplePeer = 3 # replicate 32 7"

text \<open>
  Modelled from the spec: \<open>zpay32.Decode\<close>, which is not in rpcserver.go. "Invoice decoder:
  decode an encoded invoice string into its structured fields". The sample node knows three
  invoices, all payable to \<open>samplePeer\<close> but the last: one of \<open>2 ^ 32\<close> milli-atoms, one that
  carries no amount, and one payable to the sample node itself.
\<close>

definition sampleInvoice :: Invoice where
  "sampleInvoice =
     \<lparr> inv_PaymentHash = replicate 32 9, inv_MilliAt = Some 4294967296,
       inv_Destination = samplePeer, inv_MinFinalCLTVExpiry = 9, inv_RouteHints = [],
       inv_Features = None, inv_PaymentAddr = None \<rparr>"

definition sampleDecode :: "string \<Rightarrow> error + Invoice" where
  "sampleDecode s =
     (if s = ''invoice-large'' then Inr sampleInvoice
      else if s = ''invoice-no-amount'' then Inr (sampleInvoice\<lparr>inv_MilliAt := None\<rparr>)
      else if s = ''invoice-to-self''
      then Inr (sampleInvoice\<lparr>inv_MilliAt := Some 1000, inv_Destination := sampleSelf\<rparr>)
      else Inl (ErrorsNew ''invalid invoice''))"

text \<open>
  The sample node. Its maximum payment is the one of the comment of line 3458, \<open>2 ^ 32 - 1\<close>
  milli-atoms. Its peers are all connected, its links all eligible; it has no open channel
  until one is put into \<open>FetchAllOpenChannels\<close>. Its router finds no route.
  \<open>ToAtoms\<close> and \<open>FeeForSize\<close> divide by 1000 (milli-atoms to atoms, bytes to kilobytes).
\<close>

definition sampleServer :: rpcServer where
  "sampleServer =
     \<lparr> selfNode = sampleSelf,
       MaxPaymentMAtoms = 4294967295,
       MaxOutgoingCltvExpiry = 1008,
       DefaultFinalCLTVDelta = 9,
       NewVertexFromBytes = sampleNewVertexFromBytes,
       ValidateCLTVLimit = sampleValidateCLTVLimit,
       CustomSetValidate = (\<lambda>cs. None),
       Decode = sampleDecode,
       ValidatePayReqExpiry = (\<lambda>invoice. None),
       UnmarshallAmt = sampleUnmarshallAmt,
       CalculateFeeLimit = sampleCalculateFeeLimit,
       UnmarshalFeatures = (\<lambda>bits. Inr (if bits = [] then None else Some bits)),
       Started = True,
       FetchAllOpenChannels = Inr [],
       RelayFeePerKB = 10000,
       FeeForSize = (\<lambda>rate size. rate * size div 1000),
       HTLCOutputSize = 36,
       ToAtoms = (\<lambda>m. m div 1000),
       FindPeer = (\<lambda>pub. None),
       NewChanIDFromOutPoint = (\<lambda>chanPoint. fst chanPoint),
       GetLink = (\<lambda>chanID. Inr (ChannelLink True)),
       ChannelID = (\<lambda>chanPoint. ucast (snd chanPoint) + 100),
       SendPayment = (\<lambda>payment. (replicate 32 0, None, Some (ErrorsNew ''unable to find a path''))),
       SendToRoute = (\<lambda>hash rt. (replicate 32 0, Some (ErrorsNew ''unable to send to route''))),
       MarshallRoute = (\<lambda>rt. Inr rt) \<rparr>"

text \<open>The request with every field at its zero value, and a channel with \<open>samplePeer\<close>.\<close>

definition emptyRequest :: rpcPaymentRequest where
  "emptyRequest =
     \<lparr> Dest = [], DestString = [], Amt = 0, AmtMAtoms = 0, PaymentHash = [],
       PaymentHashString = [], PaymentRequest = [], FinalCltvDelta = 0, FeeLimit = None,
       OutgoingChanId = 0, LastHopPubkey = [], CltvLimit = 0, DestCustomRecords = [],
       AllowSelfPayment = False, DestFeatures = [], IgnoreMaxOutboundAmt = False,
       route_req = None \<rparr>"

definition sampleChannel :: "64 word \<Rightarrow> 64 word \<Rightarrow> OpenChannel" where
  "sampleChannel localBalance chanReserve =
     \<lparr> IdentityPub = samplePeer, FundingOutpoint = (replicate 32 5, 0),
       LocalBalance = localBalance, ChanReserve = chanReserve \<rparr>"

section \<open>Properties of extractPaymentIntent\<close>

lemmas sample_defs =
  emptyRequest_def sampleServer_def samplePeer_def sampleSelf_def sampleValidateCLTVLimit_def
  sampleUnmarshallAmt_def sampleCalculateFeeLimit_def sampleDecode_def sampleInvoice_def
  sampleNewVertexFromBytes_def sampleChannel_def

lemmas extract_defs =
  extractPaymentIntent_def commonRestrictions_def extractRoute_def extractInvoice_def
  extractManual_def validateDest_def zeroIntent_def copy_bytes_def

lemma common_dest: "commonRestrictions r req p0 = (p, e) \<Longrightarrow> dest p = dest p0"
  by (auto simp: commonRestrictions_def Let_def split: sum.splits option.splits if_splits)

lemma extract_after_common:
  "route_req req = None \<Longrightarrow>
   extractPaymentIntent r req =
     (case commonRestrictions r req
             (zeroIntent\<lparr>ignoreMaxOutboundAmt := IgnoreMaxOutboundAmt req\<rparr>) of
        (p1, Some err) \<Rightarrow> (p1, Some err)
      | (p1, None) \<Rightarrow>
          if PaymentRequest req \<noteq> [] then extractInvoice r req p1 else extractManual r req p1)"
  by (simp add: extractPaymentIntent_def)

lemma manual_amount_bounded:
  "extractManual r req p0 = (p, None) \<Longrightarrow> mat p \<le> MaxPaymentMAtoms r"
  by (auto simp: extractManual_def Let_def validateDest_def
           split: sum.splits option.splits if_splits)

lemma manual_amount_resolved:
  "extractManual r req p0 = (p, None) \<Longrightarrow>
   UnmarshallAmt r (Amt req) (AmtMAtoms req) = Inr (mat p)"
  by (auto simp: extractManual_def Let_def validateDest_def
           split: sum.splits option.splits if_splits)

lemma extract_manual_success:
  "extractPaymentIntent r req = (p, None) \<Longrightarrow> route_req req = None \<Longrightarrow>
   PaymentRequest req = [] \<Longrightarrow> \<exists>p0. extractManual r req p0 = (p, None)"
  by (auto simp: extractPaymentIntent_def Let_def
           split: sum.splits option.splits prod.splits if_splits)

lemma extract_route_amount:
  "extractPaymentIntent r req = (p, e) \<Longrightarrow> route_req req \<noteq> None \<Longrightarrow> mat p = 0"
  by (auto simp: extractPaymentIntent_def extractRoute_def zeroIntent_def Let_def
           split: sum.splits option.splits if_splits)

text \<open>
  C1, as amended. For a request with a prebuilt route or with no invoice (the manual mode): if
  \<open>extractPaymentIntent\<close> succeeds, the amount of the intent is at most \<open>MaxPaymentMAtoms\<close>;
  with a route no amount is resolved (the field stays zero); and in the manual mode an amount
  above the maximum always gives an error.
\<close>

theorem amount_within_maximum:
  "route_req req \<noteq> None \<or> PaymentRequest req = [] \<Longrightarrow>
     (\<forall>p. extractPaymentIntent r req = (p, None) \<longrightarrow>
          mat p \<le> MaxPaymentMAtoms r \<and> (route_req req \<noteq> None \<longrightarrow> mat p = 0)) \<and>
     (\<forall>a. route_req req = None \<and> UnmarshallAmt r (Amt req) (AmtMAtoms req) = Inr a \<and>
          MaxPaymentMAtoms r < a \<longrightarrow> snd (extractPaymentIntent r req) \<noteq> None)"
proof (intro conjI allI impI)
  fix p
  assume "extractPaymentIntent r req = (p, None)" and "route_req req \<noteq> None"
  then show "mat p = 0" by (rule extract_route_amount)
next
  fix p
  assume m: "route_req req \<noteq> None \<or> PaymentRequest req = []"
    and ok: "extractPaymentIntent r req = (p, None)"
  show "mat p \<le> MaxPaymentMAtoms r"
  proof (cases "route_req req")
    case None
    with m have "PaymentRequest req = []" by auto
    with ok None obtain p0 where "extractManual r req p0 = (p, None)"
      using extract_manual_success by blast
    then show ?thesis by (rule manual_amount_bounded)
  next
    case (Some rt)
    with ok have "mat p = 0" using extract_route_amount by blast
    then show ?thesis by simp
  qed
next
  fix a
  assume m: "route_req req \<noteq> None \<or> PaymentRequest req = []"
    and h: "route_req req = None \<and> UnmarshallAmt r (Amt req) (AmtMAtoms req) = Inr a \<and>
            MaxPaymentMAtoms r < a"
  show "snd (extractPaymentIntent r req) \<noteq> None"
  proof
    assume n: "snd (extractPaymentIntent r req) = None"
    then obtain p where ok: "extractPaymentIntent r req = (p, None)"
      by (cases "extractPaymentIntent r req") simp
    from m h have "PaymentRequest req = []" and "route_req req = None" by auto
    with ok obtain p0 where man: "extractManual r req p0 = (p, None)"
      using extract_manual_success by blast
    from man have "UnmarshallAmt r (Amt req) (AmtMAtoms req) = Inr (mat p)"
      by (rule manual_amount_resolved)
    with h have "mat p = a" by simp
    moreover from man have "mat p \<le> MaxPaymentMAtoms r" by (rule manual_amount_bounded)
    ultimately show False using h by (auto dest: leD)
  qed
qed

text \<open>
  C1, witness: on the sample node a manual payment of 5000 milli-atoms to \<open>samplePeer\<close>
  resolves within the maximum, and one of \<open>2 ^ 32\<close> milli-atoms is refused.
\<close>

theorem amount_within_maximum_witness:
  "PaymentRequest (emptyRequest\<lparr>Dest := samplePeer, AmtMAtoms := 5000\<rparr>) = [] \<and>
   mat (fst (extractPaymentIntent sampleServer (emptyRequest\<lparr>Dest := samplePeer, AmtMAtoms := 5000\<rparr>)))
     \<le> MaxPaymentMAtoms sampleServer \<and>
   MaxPaymentMAtoms sampleServer < 4294967296 \<and>
   snd (extractPaymentIntent sampleServer
          (emptyRequest\<lparr>Dest := samplePeer, AmtMAtoms := 4294967296\<rparr>)) \<noteq> None"
proof -
  let ?a = "emptyRequest\<lparr>Dest := samplePeer, AmtMAtoms := 5000\<rparr>"
  let ?b = "emptyRequest\<lparr>Dest := samplePeer, AmtMAtoms := 4294967296\<rparr>"
  have ma: "route_req ?a \<noteq> None \<or> PaymentRequest ?a = []"
    and mb: "route_req ?b \<noteq> None \<or> PaymentRequest ?b = []"
    by (simp_all add: emptyRequest_def)
  have ok: "snd (extractPaymentIntent sampleServer ?a) = None"
    by (simp add: extract_defs sample_defs)
  have big: "route_req ?b = None \<and>
      UnmarshallAmt sampleServer (Amt ?b) (AmtMAtoms ?b) = Inr 4294967296 \<and>
      MaxPaymentMAtoms sampleServer < 4294967296"
    by (simp add: sample_defs)
  from ok have "extractPaymentIntent sampleServer ?a =
      (fst (extractPaymentIntent sampleServer ?a), None)"
    by (metis prod.collapse)
  with amount_within_maximum [OF ma, of sampleServer]
  have "mat (fst (extractPaymentIntent sampleServer ?a)) \<le> MaxPaymentMAtoms sampleServer"
    by blast
  moreover from amount_within_maximum [OF mb, of sampleServer] big
  have "snd (extractPaymentIntent sampleServer ?b) \<noteq> None"
    by blast
  moreover have "PaymentRequest ?a = []" by (simp add: emptyRequest_def)
  ultimately show ?thesis using big by blast
qed

lemma sample_large_invoice:
  "extractPaymentIntent sampleServer (emptyRequest\<lparr>PaymentRequest := ''invoice-large''\<rparr>) =
     (zeroIntent\<lparr>mat := 4294967296, feeLimit := 4294967296, cltvLimit := 1008,
        dest := samplePeer, rHash := replicate 32 9, cltvDelta := 9,
        payReq := map of_char ''invoice-large''\<rparr>, None)"
  by (simp add: extract_defs sample_defs)

text \<open>
  C1, counterexample to the claim as stated: on the sample node the invoice of \<open>2 ^ 32\<close>
  milli-atoms resolves without error, and the amount of the intent is above the maximum
  (the invoice branch returns at line 3386, before the check of line 3460); and a request
  with a route that carries an amount above the maximum resolves without error too.
\<close>

theorem invoice_amount_above_maximum:
  "snd (extractPaymentIntent sampleServer (emptyRequest\<lparr>PaymentRequest := ''invoice-large''\<rparr>))
     = None \<and>
   MaxPaymentMAtoms sampleServer <
     mat (fst (extractPaymentIntent sampleServer
                 (emptyRequest\<lparr>PaymentRequest := ''invoice-large''\<rparr>))) \<and>
   MaxPaymentMAtoms sampleServer <
     AmtMAtoms (emptyRequest\<lparr>route_req := Some [7], AmtMAtoms := 4294967296\<rparr>) \<and>
   snd (extractPaymentIntent sampleServer
          (emptyRequest\<lparr>route_req := Some [7], AmtMAtoms := 4294967296\<rparr>)) = None"
  by (simp add: sample_large_invoice)
     (simp add: extractPaymentIntent_def extractRoute_def sampleServer_def emptyRequest_def)

subsection \<open>Requests with a prebuilt route\<close>

text \<open>
  C6, as amended. With a prebuilt route \<open>extractPaymentIntent\<close> reads the payment hash (raw
  or hex), the route and the flag \<open>IgnoreMaxOutboundAmt\<close>, and nothing else of the request
  or of the server: two requests that agree on these give the same result on any two
  servers. On success every field of the intent but the hash, the route and the flag has its
  zero value: no amount and no destination is resolved or validated.
\<close>

theorem route_mode_uses_hash_and_route:
  "route_req req = Some rt \<and> route_req req' = Some rt \<and> PaymentHash req' = PaymentHash req \<and>
   PaymentHashString req' = PaymentHashString req \<and>
   IgnoreMaxOutboundAmt req' = IgnoreMaxOutboundAmt req \<longrightarrow>
     extractPaymentIntent r' req' = extractPaymentIntent r req \<and>
     (\<forall>p. extractPaymentIntent r req = (p, None) \<longrightarrow>
        p\<lparr>rHash := replicate 32 0\<rparr> =
          zeroIntent\<lparr>ignoreMaxOutboundAmt := IgnoreMaxOutboundAmt req, route := Some rt\<rparr>)"
  by (auto simp: extractPaymentIntent_def extractRoute_def zeroIntent_def Let_def
           split: sum.splits if_splits)

text \<open>
  C6, witness: a request with the route \<open>[7]\<close> and the hash \<open>[1, 2, 3]\<close> resolves on the
  sample node exactly as one that also carries a destination, an amount and an invoice does
  on a node with another identity and another maximum; it succeeds, and but for the hash the
  intent is the zero intent with the route.
\<close>

theorem route_mode_uses_hash_and_route_witness:
  "extractPaymentIntent (sampleServer\<lparr>selfNode := samplePeer, MaxPaymentMAtoms := 5\<rparr>)
     (emptyRequest\<lparr>route_req := Some [7], PaymentHash := [1, 2, 3], Dest := samplePeer,
        AmtMAtoms := 77, PaymentRequest := ''invoice-large''\<rparr>) =
   extractPaymentIntent sampleServer
     (emptyRequest\<lparr>route_req := Some [7], PaymentHash := [1, 2, 3]\<rparr>) \<and>
   snd (extractPaymentIntent sampleServer
     (emptyRequest\<lparr>route_req := Some [7], PaymentHash := [1, 2, 3]\<rparr>)) = None \<and>
   (fst (extractPaymentIntent sampleServer
     (emptyRequest\<lparr>route_req := Some [7], PaymentHash := [1, 2, 3]\<rparr>)))\<lparr>rHash := replicate 32 0\<rparr> =
   zeroIntent\<lparr>ignoreMaxOutboundAmt := False, route := Some [7]\<rparr>"
proof -
  let ?a = "emptyRequest\<lparr>route_req := Some [7], PaymentHash := [1, 2, 3]\<rparr>"
  let ?b = "emptyRequest\<lparr>route_req := Some [7], PaymentHash := [1, 2, 3], Dest := samplePeer,
        AmtMAtoms := 77, PaymentRequest := ''invoice-large''\<rparr>"
  let ?r' = "sampleServer\<lparr>selfNode := samplePeer, MaxPaymentMAtoms := 5\<rparr>"
  have h: "route_req ?a = Some [7] \<and> route_req ?b = Some [7] \<and>
      PaymentHash ?b = PaymentHash ?a \<and> PaymentHashString ?b = PaymentHashString ?a \<and>
      IgnoreMaxOutboundAmt ?b = IgnoreMaxOutboundAmt ?a"
    by (simp add: emptyRequest_def)
  have ok: "extractPaymentIntent sampleServer ?a =
      (fst (extractPaymentIntent sampleServer ?a), None)"
    by (simp add: extract_defs sample_defs)
  have i: "IgnoreMaxOutboundAmt ?a = False" by (simp add: emptyRequest_def)
  from route_mode_uses_hash_and_route [of ?a "[7]" ?b ?r' sampleServer] h
  have "extractPaymentIntent ?r' ?b = extractPaymentIntent sampleServer ?a \<and>
     (\<forall>p. extractPaymentIntent sampleServer ?a = (p, None) \<longrightarrow>
        p\<lparr>rHash := replicate 32 0\<rparr> =
          zeroIntent\<lparr>ignoreMaxOutboundAmt := IgnoreMaxOutboundAmt ?a, route := Some [7]\<rparr>)"
    by blast
  with ok i show ?thesis by (metis snd_conv)
qed

text \<open>
  C6, counterexample to the claim as stated: two requests with the same route and the same
  (empty) payment hash that differ in \<open>IgnoreMaxOutboundAmt\<close> give different intents.
\<close>

theorem route_mode_reads_bypass_flag:
  "extractPaymentIntent sampleServer (emptyRequest\<lparr>route_req := Some [7]\<rparr>) \<noteq>
   extractPaymentIntent sampleServer
     (emptyRequest\<lparr>route_req := Some [7], IgnoreMaxOutboundAmt := True\<rparr>)"
  by (simp add: extract_defs sample_defs)

subsection \<open>The length of the payment hash\<close>

lemma common_hash_raw:
  "commonRestrictions r (req\<lparr>PaymentHash := h\<rparr>) p0 = commonRestrictions r req p0"
  by (simp add: commonRestrictions_def Let_def cong: sum.case_cong option.case_cong if_cong)

lemma common_hash_string:
  "commonRestrictions r (req\<lparr>PaymentHashString := s\<rparr>) p0 = commonRestrictions r req p0"
  by (simp add: commonRestrictions_def Let_def cong: sum.case_cong option.case_cong if_cong)

lemma invoice_hash_raw:
  "extractInvoice r (req\<lparr>PaymentHash := h\<rparr>) p0 = extractInvoice r req p0"
  by (simp add: extractInvoice_def validateDest_def Let_def
        cong: sum.case_cong option.case_cong if_cong)

lemma invoice_hash_string:
  "extractInvoice r (req\<lparr>PaymentHashString := s\<rparr>) p0 = extractInvoice r req p0"
  by (simp add: extractInvoice_def validateDest_def Let_def
        cong: sum.case_cong option.case_cong if_cong)

lemma manual_hash_raw:
  "PaymentHashString req = [] \<Longrightarrow>
   snd (extractManual r (req\<lparr>PaymentHash := h\<rparr>) p0) = snd (extractManual r req p0)"
  by (auto simp: extractManual_def Let_def validateDest_def
           split: sum.splits option.splits if_splits)

lemma manual_hash_string:
  "s \<noteq> [] \<Longrightarrow> s' \<noteq> [] \<Longrightarrow>
   hexDecodeString s = Inr h1 \<Longrightarrow> hexDecodeString s' = Inr h2 \<Longrightarrow>
   snd (extractManual r (req\<lparr>PaymentHashString := s\<rparr>) p0) =
   snd (extractManual r (req\<lparr>PaymentHashString := s'\<rparr>) p0)"
  by (auto simp: extractManual_def Let_def validateDest_def
           split: sum.splits option.splits if_splits)

lemma route_hash_raw:
  "PaymentHashString req = [] \<Longrightarrow>
   snd (extractRoute (req\<lparr>PaymentHash := h\<rparr>) p0 rt) = snd (extractRoute req p0 rt)"
  by (simp add: extractRoute_def)

lemma route_hash_string:
  "s \<noteq> [] \<Longrightarrow> s' \<noteq> [] \<Longrightarrow>
   hexDecodeString s = Inr h1 \<Longrightarrow> hexDecodeString s' = Inr h2 \<Longrightarrow>
   snd (extractRoute (req\<lparr>PaymentHashString := s\<rparr>) p0 rt) =
   snd (extractRoute (req\<lparr>PaymentHashString := s'\<rparr>) p0 rt)"
  by (simp add: extractRoute_def)

lemma error_ignores_raw_hash:
  "PaymentHashString req = [] \<Longrightarrow>
   snd (extractPaymentIntent r (req\<lparr>PaymentHash := h\<rparr>)) = snd (extractPaymentIntent r req)"
  by (simp add: extractPaymentIntent_def Let_def common_hash_raw invoice_hash_raw
        manual_hash_raw route_hash_raw split: option.splits prod.splits)

lemma error_ignores_hex_hash:
  "s \<noteq> [] \<Longrightarrow> s' \<noteq> [] \<Longrightarrow>
   hexDecodeString s = Inr h1 \<Longrightarrow> hexDecodeString s' = Inr h2 \<Longrightarrow>
   snd (extractPaymentIntent r (req\<lparr>PaymentHashString := s\<rparr>)) =
   snd (extractPaymentIntent r (req\<lparr>PaymentHashString := s'\<rparr>))"
  by (simp add: extractPaymentIntent_def Let_def common_hash_string invoice_hash_string
        manual_hash_string[of s s'] route_hash_string[of s s'] split: option.splits prod.splits)

lemma common_rHash: "commonRestrictions r req p0 = (p, e) \<Longrightarrow> rHash p = rHash p0"
  by (auto simp: commonRestrictions_def Let_def split: sum.splits option.splits if_splits)

lemma manual_rHash:
  "extractManual r req p0 = (p, None) \<Longrightarrow> suppliedHash req = Inr h \<Longrightarrow>
   rHash p = copy_bytes (rHash p0) h"
  by (auto simp: extractManual_def Let_def validateDest_def suppliedHash_def
           split: sum.splits option.splits if_splits)

lemma route_rHash:
  "extractRoute req p0 rt = (p, None) \<Longrightarrow> suppliedHash req = Inr h \<Longrightarrow>
   rHash p = copy_bytes (rHash p0) h"
  by (auto simp: extractRoute_def suppliedHash_def split: sum.splits if_splits)

lemma resolved_hash_padded:
  "route_req req \<noteq> None \<or> PaymentRequest req = [] \<Longrightarrow>
   extractPaymentIntent r req = (p, None) \<Longrightarrow> suppliedHash req = Inr h \<Longrightarrow>
   rHash p = take 32 h @ replicate (32 - length h) 0"
  apply (cases "route_req req")
   apply (auto simp: extractPaymentIntent_def Let_def split: prod.splits option.splits
      dest!: common_rHash manual_rHash route_rHash)
   apply (simp_all add: zeroIntent_def copy_bytes_def)
  done


lemma hex_hash_as_raw:
  "s \<noteq> [] \<Longrightarrow> hexDecodeString s = Inr h \<Longrightarrow>
   extractPaymentIntent r (req\<lparr>PaymentHashString := s\<rparr>) =
   extractPaymentIntent r (req\<lparr>PaymentHashString := [], PaymentHash := h\<rparr>)"
  by (auto simp: extractPaymentIntent_def extractRoute_def extractManual_def Let_def
        common_hash_string common_hash_raw invoice_hash_string invoice_hash_raw validateDest_def
      split: option.splits prod.splits sum.splits)

lemma route_hash_accepted:
  "route_req req = Some rt \<Longrightarrow> suppliedHash req = Inr h \<Longrightarrow>
   extractPaymentIntent r req =
     (zeroIntent\<lparr>ignoreMaxOutboundAmt := IgnoreMaxOutboundAmt req,
                 rHash := take 32 h @ replicate (32 - length h) 0, route := Some rt\<rparr>, None)"
  by (auto simp: extractPaymentIntent_def extractRoute_def suppliedHash_def zeroIntent_def
        copy_bytes_def Let_def split: if_splits)

lemma manual_hash_accepted:
  assumes "dest p1 = replicate 33 0" "rHash p1 = replicate 32 0"
    and "(if length (Dest req) \<noteq> 0 then Inr (Dest req) else hexDecodeString (DestString req)) =
           Inr pubBytes"
    and "length pubBytes = 33" and "AllowSelfPayment req \<or> pubBytes \<noteq> selfNode r"
    and "UnmarshallAmt r (Amt req) (AmtMAtoms req) = Inr a" and "a \<le> MaxPaymentMAtoms r"
    and "UnmarshalFeatures r (DestFeatures req) = Inr fv" and "suppliedHash req = Inr h"
  shows "snd (extractManual r req p1) = None \<and>
         rHash (fst (extractManual r req p1)) = take 32 h @ replicate (32 - length h) 0"
  using assms
  by (auto simp: extractManual_def Let_def validateDest_def suppliedHash_def copy_bytes_def
           split: if_splits dest: leD)


text \<open>
  C9. No hash is refused for its length. With a route, every request whose hash is given raw
  or as a hex string that decodes is resolved without error, and the hash of the intent is
  the supplied one cut to 32 bytes and filled with zeros to 32. In the manual mode the same
  holds of every request that passes the other checks of the branch (common restrictions,
  destination, self-payment, amount, features, maximum). A hash given as a hex string is
  treated exactly as the bytes it decodes to given raw; the error returned does not depend on
  the raw hash, nor on which decodable hex string is given; and whenever a request with a
  route or without invoice is resolved, the hash of the intent is the supplied one cut or
  filled to 32 bytes.
\<close>

theorem hash_length_never_rejected:
  "(route_req req = Some rt \<and> suppliedHash req = Inr h \<longrightarrow>
      extractPaymentIntent r req =
        (zeroIntent\<lparr>ignoreMaxOutboundAmt := IgnoreMaxOutboundAmt req,
                    rHash := take 32 h @ replicate (32 - length h) 0, route := Some rt\<rparr>,
         None)) \<and>
   (route_req req = None \<and> PaymentRequest req = [] \<and>
    snd (commonRestrictions r req
           (zeroIntent\<lparr>ignoreMaxOutboundAmt := IgnoreMaxOutboundAmt req\<rparr>)) = None \<and>
    (if length (Dest req) \<noteq> 0 then Inr (Dest req) else hexDecodeString (DestString req)) =
      Inr pubBytes \<and>
    length pubBytes = 33 \<and> (AllowSelfPayment req \<or> pubBytes \<noteq> selfNode r) \<and>
    UnmarshallAmt r (Amt req) (AmtMAtoms req) = Inr a \<and> a \<le> MaxPaymentMAtoms r \<and>
    UnmarshalFeatures r (DestFeatures req) = Inr fv \<and> suppliedHash req = Inr h \<longrightarrow>
      snd (extractPaymentIntent r req) = None \<and>
      rHash (fst (extractPaymentIntent r req)) = take 32 h @ replicate (32 - length h) 0) \<and>
   (s \<noteq> [] \<and> hexDecodeString s = Inr h1 \<longrightarrow>
      extractPaymentIntent r (req\<lparr>PaymentHashString := s\<rparr>) =
      extractPaymentIntent r (req\<lparr>PaymentHashString := [], PaymentHash := h1\<rparr>)) \<and>
   (PaymentHashString req = [] \<longrightarrow>
      snd (extractPaymentIntent r (req\<lparr>PaymentHash := h2\<rparr>)) = snd (extractPaymentIntent r req)) \<and>
   (s \<noteq> [] \<and> s' \<noteq> [] \<and> hexDecodeString s = Inr h1 \<and> hexDecodeString s' = Inr h3 \<longrightarrow>
      snd (extractPaymentIntent r (req\<lparr>PaymentHashString := s\<rparr>)) =
      snd (extractPaymentIntent r (req\<lparr>PaymentHashString := s'\<rparr>))) \<and>
   ((route_req req \<noteq> None \<or> PaymentRequest req = []) \<and>
    extractPaymentIntent r req = (p, None) \<and> suppliedHash req = Inr h' \<longrightarrow>
      rHash p = take 32 h' @ replicate (32 - length h') 0)"
proof (intro conjI impI)
  assume "route_req req = Some rt \<and> suppliedHash req = Inr h"
  then show "extractPaymentIntent r req =
        (zeroIntent\<lparr>ignoreMaxOutboundAmt := IgnoreMaxOutboundAmt req,
                    rHash := take 32 h @ replicate (32 - length h) 0, route := Some rt\<rparr>,
         None)"
    by (simp add: route_hash_accepted)
next
  let ?p0 = "zeroIntent\<lparr>ignoreMaxOutboundAmt := IgnoreMaxOutboundAmt req\<rparr>"
  assume a: "route_req req = None \<and> PaymentRequest req = [] \<and>
    snd (commonRestrictions r req ?p0) = None \<and>
    (if length (Dest req) \<noteq> 0 then Inr (Dest req) else hexDecodeString (DestString req)) =
      Inr pubBytes \<and>
    length pubBytes = 33 \<and> (AllowSelfPayment req \<or> pubBytes \<noteq> selfNode r) \<and>
    UnmarshallAmt r (Amt req) (AmtMAtoms req) = Inr a \<and> a \<le> MaxPaymentMAtoms r \<and>
    UnmarshalFeatures r (DestFeatures req) = Inr fv \<and> suppliedHash req = Inr h"
  then obtain p1 where c: "commonRestrictions r req ?p0 = (p1, None)"
    by (metis prod.collapse)
  then have d: "dest p1 = replicate 33 0" and rh: "rHash p1 = replicate 32 0"
    using common_dest [OF c] common_rHash [OF c] by (simp_all add: zeroIntent_def)
  from a c have e: "extractPaymentIntent r req = extractManual r req p1"
    by (simp add: extract_after_common)
  from a have "snd (extractManual r req p1) = None \<and>
         rHash (fst (extractManual r req p1)) = take 32 h @ replicate (32 - length h) 0"
    by (intro manual_hash_accepted [OF d rh]) auto
  with e show "snd (extractPaymentIntent r req) = None"
    and "rHash (fst (extractPaymentIntent r req)) = take 32 h @ replicate (32 - length h) 0"
    by simp_all
next
  assume "s \<noteq> [] \<and> hexDecodeString s = Inr h1"
  then show "extractPaymentIntent r (req\<lparr>PaymentHashString := s\<rparr>) =
      extractPaymentIntent r (req\<lparr>PaymentHashString := [], PaymentHash := h1\<rparr>)"
    by (simp add: hex_hash_as_raw)
next
  assume "PaymentHashString req = []"
  then show "snd (extractPaymentIntent r (req\<lparr>PaymentHash := h2\<rparr>)) =
      snd (extractPaymentIntent r req)"
    by (rule error_ignores_raw_hash)
next
  assume "s \<noteq> [] \<and> s' \<noteq> [] \<and> hexDecodeString s = Inr h1 \<and> hexDecodeString s' = Inr h3"
  then show "snd (extractPaymentIntent r (req\<lparr>PaymentHashString := s\<rparr>)) =
      snd (extractPaymentIntent r (req\<lparr>PaymentHashString := s'\<rparr>))"
    using error_ignores_hex_hash by blast
next
  assume "(route_req req \<noteq> None \<or> PaymentRequest req = []) \<and>
    extractPaymentIntent r req = (p, None) \<and> suppliedHash req = Inr h'"
  then show "rHash p = take 32 h' @ replicate (32 - length h') 0"
    using resolved_hash_padded by blast
qed

text \<open>
  C9, witness: on the sample node requests with the route \<open>[7]\<close> and a raw hash of 3
  bytes, a raw hash of 40 bytes and the hex string of 2 bytes are resolved with the hash
  filled, cut and filled; so are manual payments to \<open>samplePeer\<close> with the hex string of 2
  bytes and with the raw hash of 40 bytes.
\<close>

theorem hash_length_never_rejected_witness:
  "suppliedHash (emptyRequest\<lparr>route_req := Some [7], PaymentHash := [1, 2, 3]\<rparr>) = Inr [1, 2, 3] \<and>
   extractPaymentIntent sampleServer
     (emptyRequest\<lparr>route_req := Some [7], PaymentHash := [1, 2, 3]\<rparr>) =
     (zeroIntent\<lparr>ignoreMaxOutboundAmt := False, rHash := [1, 2, 3] @ replicate 29 0,
                 route := Some [7]\<rparr>, None) \<and>
   extractPaymentIntent sampleServer
     (emptyRequest\<lparr>route_req := Some [7], PaymentHash := replicate 40 5\<rparr>) =
     (zeroIntent\<lparr>ignoreMaxOutboundAmt := False, rHash := replicate 32 5,
                 route := Some [7]\<rparr>, None) \<and>
   hexDecodeString ''0aFf'' = Inr [10, 255] \<and>
   extractPaymentIntent sampleServer
     (emptyRequest\<lparr>route_req := Some [7], PaymentHashString := ''0aFf''\<rparr>) =
     (zeroIntent\<lparr>ignoreMaxOutboundAmt := False, rHash := [10, 255] @ replicate 30 0,
                 route := Some [7]\<rparr>, None) \<and>
   snd (extractPaymentIntent sampleServer
          (emptyRequest\<lparr>Dest := samplePeer, PaymentHashString := ''0aFf''\<rparr>)) = None \<and>
   rHash (fst (extractPaymentIntent sampleServer
          (emptyRequest\<lparr>Dest := samplePeer, PaymentHashString := ''0aFf''\<rparr>))) =
     [10, 255] @ replicate 30 0 \<and>
   snd (extractPaymentIntent sampleServer
          (emptyRequest\<lparr>Dest := samplePeer, PaymentHash := replicate 40 5\<rparr>)) = None \<and>
   rHash (fst (extractPaymentIntent sampleServer
          (emptyRequest\<lparr>Dest := samplePeer, PaymentHash := replicate 40 5\<rparr>))) = replicate 32 5"
proof -
  let ?ra = "emptyRequest\<lparr>route_req := Some [7], PaymentHash := [1, 2, 3]\<rparr>"
  let ?rb = "emptyRequest\<lparr>route_req := Some [7], PaymentHash := replicate 40 5\<rparr>"
  let ?rc = "emptyRequest\<lparr>route_req := Some [7], PaymentHashString := ''0aFf''\<rparr>"
  let ?ma = "emptyRequest\<lparr>Dest := samplePeer, PaymentHashString := ''0aFf''\<rparr>"
  let ?mb = "emptyRequest\<lparr>Dest := samplePeer, PaymentHash := replicate 40 5\<rparr>"
  note T = hash_length_never_rejected [where r = sampleServer]
  have hx: "hexDecodeString ''0aFf'' = Inr [10, 255]"
    by (simp add: fromHexChar_def)
  have sa: "route_req ?ra = Some [7] \<and> suppliedHash ?ra = Inr [1, 2, 3]"
    and sb: "route_req ?rb = Some [7] \<and> suppliedHash ?rb = Inr (replicate 40 5)"
    and i: "IgnoreMaxOutboundAmt ?ra = False" "IgnoreMaxOutboundAmt ?rb = False"
      "IgnoreMaxOutboundAmt ?rc = False"
    by (simp_all add: suppliedHash_def emptyRequest_def)
  have sc: "route_req ?rc = Some [7] \<and> suppliedHash ?rc = Inr [10, 255]"
    using hx by (simp add: suppliedHash_def emptyRequest_def)
  from T [where req = ?ra and rt = "[7]" and h = "[1, 2, 3]"] sa i
  have 1: "extractPaymentIntent sampleServer ?ra =
     (zeroIntent\<lparr>ignoreMaxOutboundAmt := False, rHash := [1, 2, 3] @ replicate 29 0,
                 route := Some [7]\<rparr>, None)"
    by simp
  from T [where req = ?rb and rt = "[7]" and h = "replicate 40 5"] sb i
  have 2: "extractPaymentIntent sampleServer ?rb =
     (zeroIntent\<lparr>ignoreMaxOutboundAmt := False, rHash := replicate 32 5,
                 route := Some [7]\<rparr>, None)"
    by simp
  from T [where req = ?rc and rt = "[7]" and h = "[10, 255]"] sc i
  have 3: "extractPaymentIntent sampleServer ?rc =
     (zeroIntent\<lparr>ignoreMaxOutboundAmt := False, rHash := [10, 255] @ replicate 30 0,
                 route := Some [7]\<rparr>, None)"
    by simp
  have ne: "samplePeer ! 0 \<noteq> sampleSelf ! 0"
    by (simp add: samplePeer_def sampleSelf_def)
  then have neq: "samplePeer \<noteq> selfNode sampleServer"
    by (auto simp: sampleServer_def)
  have len: "length samplePeer = 33" by (simp add: samplePeer_def)
  have ma: "route_req ?ma = None \<and> PaymentRequest ?ma = [] \<and>
    snd (commonRestrictions sampleServer ?ma
           (zeroIntent\<lparr>ignoreMaxOutboundAmt := IgnoreMaxOutboundAmt ?ma\<rparr>)) = None \<and>
    (if length (Dest ?ma) \<noteq> 0 then Inr (Dest ?ma) else hexDecodeString (DestString ?ma)) =
      Inr samplePeer \<and>
    UnmarshallAmt sampleServer (Amt ?ma) (AmtMAtoms ?ma) = Inr 0 \<and>
    (0 :: 64 word) \<le> MaxPaymentMAtoms sampleServer \<and>
    UnmarshalFeatures sampleServer (DestFeatures ?ma) = Inr None \<and>
    suppliedHash ?ma = Inr [10, 255]"
    using hx len
    by (simp add: commonRestrictions_def suppliedHash_def emptyRequest_def sampleServer_def
          sampleValidateCLTVLimit_def sampleUnmarshallAmt_def)
  have mb: "route_req ?mb = None \<and> PaymentRequest ?mb = [] \<and>
    snd (commonRestrictions sampleServer ?mb
           (zeroIntent\<lparr>ignoreMaxOutboundAmt := IgnoreMaxOutboundAmt ?mb\<rparr>)) = None \<and>
    (if length (Dest ?mb) \<noteq> 0 then Inr (Dest ?mb) else hexDecodeString (DestString ?mb)) =
      Inr samplePeer \<and>
    UnmarshallAmt sampleServer (Amt ?mb) (AmtMAtoms ?mb) = Inr 0 \<and>
    (0 :: 64 word) \<le> MaxPaymentMAtoms sampleServer \<and>
    UnmarshalFeatures sampleServer (DestFeatures ?mb) = Inr None \<and>
    suppliedHash ?mb = Inr (replicate 40 5)"
    using len
    by (simp add: commonRestrictions_def suppliedHash_def emptyRequest_def sampleServer_def
          sampleValidateCLTVLimit_def sampleUnmarshallAmt_def)
  from T [where req = ?ma and pubBytes = samplePeer and a = 0 and fv = None
            and h = "[10, 255]"] ma neq len
  have 4: "snd (extractPaymentIntent sampleServer ?ma) = None \<and>
      rHash (fst (extractPaymentIntent sampleServer ?ma)) = [10, 255] @ replicate 30 0"
    by simp
  from T [where req = ?mb and pubBytes = samplePeer and a = 0 and fv = None
            and h = "replicate 40 5"] mb neq len
  have 5: "snd (extractPaymentIntent sampleServer ?mb) = None \<and>
      rHash (fst (extractPaymentIntent sampleServer ?mb)) = replicate 32 5"
    by simp
  from sa hx 1 2 3 4 5 show ?thesis by simp
qed

subsection \<open>Payments to the node itself\<close>

lemma manual_self:
  "extractManual r req p0 = (p, e) \<Longrightarrow> \<not> AllowSelfPayment req \<Longrightarrow> dest p = selfNode r \<Longrightarrow>
   dest p0 \<noteq> selfNode r \<Longrightarrow> e = Some (ErrorsNew ''self-payments not allowed'')"
  by (auto simp: extractManual_def Let_def validateDest_def
           split: sum.splits option.splits if_splits)

lemma invoice_self:
  "extractInvoice r req p0 = (p, e) \<Longrightarrow> \<not> AllowSelfPayment req \<Longrightarrow> dest p = selfNode r \<Longrightarrow>
   dest p0 \<noteq> selfNode r \<Longrightarrow> e = Some (ErrorsNew ''self-payments not allowed'')"
  by (auto simp: extractInvoice_def Let_def validateDest_def
           split: sum.splits option.splits if_splits)

lemma extract_self:
  assumes "extractPaymentIntent r req = (p, e)" "route_req req = None" "\<not> AllowSelfPayment req"
    "selfNode r \<noteq> replicate 33 0" "dest p = selfNode r"
  shows "e = Some (ErrorsNew ''self-payments not allowed'')"
proof -
  let ?p0 = "zeroIntent\<lparr>ignoreMaxOutboundAmt := IgnoreMaxOutboundAmt req\<rparr>"
  obtain p1 e1 where c: "commonRestrictions r req ?p0 = (p1, e1)"
    by (cases "commonRestrictions r req ?p0")
  then have d1: "dest p1 = replicate 33 0"
    using common_dest by (fastforce simp: zeroIntent_def)
  show ?thesis
  proof (cases e1)
    case (Some err)
    with c assms(1,2) have "p = p1" by (simp add: extractPaymentIntent_def)
    with d1 assms(4,5) show ?thesis by simp
  next
    case None
    show ?thesis
    proof (cases "PaymentRequest req = []")
      case True
      with c None assms(1,2) have "extractManual r req p1 = (p, e)"
        by (simp add: extractPaymentIntent_def)
      then show ?thesis using assms(3,4,5) d1 by (auto dest: manual_self)
    next
      case False
      with c None assms(1,2) have "extractInvoice r req p1 = (p, e)"
        by (simp add: extractPaymentIntent_def)
      then show ?thesis using assms(3,4,5) d1 by (auto dest: invoice_self)
    qed
  qed
qed

lemma sync_no_call:
  "snd (extractPaymentIntent r req) \<noteq> None \<Longrightarrow> snd (sendPaymentSync r req) = []"
  by (auto simp: sendPaymentSync_def split: prod.splits option.splits)

lemma route_no_self_check:
  "route_req req \<noteq> None \<Longrightarrow>
   extractPaymentIntent (r\<lparr>selfNode := n\<rparr>) (req\<lparr>AllowSelfPayment := b\<rparr>) =
     extractPaymentIntent r req"
  by (auto simp: extractPaymentIntent_def extractRoute_def Let_def
           cong: if_cong sum.case_cong)


text \<open>
  C4. For a request without a route and without \<open>AllowSelfPayment\<close>: whenever the destination
  that \<open>extractPaymentIntent\<close> resolved (the \<open>dest\<close> of the intent it returns) is the node's
  own identity, it returns the error "self-payments not allowed", and \<open>sendPaymentSync\<close> makes
  no call to the router. (The identity is a public key, not the zero value of an unset
  \<open>dest\<close>.) With a route the result depends neither on the node's identity nor on the flag:
  no such check is made.
\<close>

theorem self_payment_rejected:
  "(route_req req = None \<and> \<not> AllowSelfPayment req \<and> selfNode r \<noteq> replicate 33 0 \<and>
    dest (fst (extractPaymentIntent r req)) = selfNode r \<longrightarrow>
      snd (extractPaymentIntent r req) = Some (ErrorsNew ''self-payments not allowed'') \<and>
      snd (sendPaymentSync r req) = []) \<and>
   (route_req req \<noteq> None \<longrightarrow>
      extractPaymentIntent (r\<lparr>selfNode := n\<rparr>) (req\<lparr>AllowSelfPayment := b\<rparr>) =
        extractPaymentIntent r req)"
proof (intro conjI impI)
  assume a: "route_req req = None \<and> \<not> AllowSelfPayment req \<and> selfNode r \<noteq> replicate 33 0 \<and>
    dest (fst (extractPaymentIntent r req)) = selfNode r"
  have "extractPaymentIntent r req =
      (fst (extractPaymentIntent r req), snd (extractPaymentIntent r req))"
    by simp
  with a show e: "snd (extractPaymentIntent r req) = Some (ErrorsNew ''self-payments not allowed'')"
    using extract_self by blast
  then show "snd (sendPaymentSync r req) = []"
    by (simp add: sync_no_call)
next
  assume "route_req req \<noteq> None"
  then show "extractPaymentIntent (r\<lparr>selfNode := n\<rparr>) (req\<lparr>AllowSelfPayment := b\<rparr>) =
        extractPaymentIntent r req"
    by (rule route_no_self_check)
qed

text \<open>
  C4, witness: on the sample node a manual payment to \<open>sampleSelf\<close> and the invoice payable
  to \<open>sampleSelf\<close> are both refused; a request with a route is resolved alike whoever the
  node is.
\<close>

theorem self_payment_rejected_witness:
  "dest (fst (extractPaymentIntent sampleServer (emptyRequest\<lparr>Dest := sampleSelf\<rparr>))) =
     selfNode sampleServer \<and>
   snd (extractPaymentIntent sampleServer (emptyRequest\<lparr>Dest := sampleSelf\<rparr>)) =
     Some (ErrorsNew ''self-payments not allowed'') \<and>
   snd (sendPaymentSync sampleServer (emptyRequest\<lparr>Dest := sampleSelf\<rparr>)) = [] \<and>
   dest (fst (extractPaymentIntent sampleServer
                (emptyRequest\<lparr>PaymentRequest := ''invoice-to-self''\<rparr>))) = selfNode sampleServer \<and>
   snd (extractPaymentIntent sampleServer (emptyRequest\<lparr>PaymentRequest := ''invoice-to-self''\<rparr>)) =
     Some (ErrorsNew ''self-payments not allowed'') \<and>
   extractPaymentIntent (sampleServer\<lparr>selfNode := samplePeer\<rparr>)
     (emptyRequest\<lparr>Dest := samplePeer, route_req := Some [7], AllowSelfPayment := False\<rparr>) =
   extractPaymentIntent sampleServer (emptyRequest\<lparr>Dest := samplePeer, route_req := Some [7]\<rparr>)"
proof -
  let ?m = "emptyRequest\<lparr>Dest := sampleSelf\<rparr>"
  let ?i = "emptyRequest\<lparr>PaymentRequest := ''invoice-to-self''\<rparr>"
  let ?t = "emptyRequest\<lparr>Dest := samplePeer, route_req := Some [7]\<rparr>"
  have dm: "dest (fst (extractPaymentIntent sampleServer ?m)) = selfNode sampleServer"
    by (simp add: extract_defs sample_defs)
  have di: "dest (fst (extractPaymentIntent sampleServer ?i)) = selfNode sampleServer"
    by (simp add: extract_defs sample_defs)
  have "sampleSelf ! 0 \<noteq> replicate 33 (0 :: byte) ! 0"
    by (simp add: sampleSelf_def)
  then have "sampleSelf \<noteq> replicate 33 0"
    by metis
  then have hm: "route_req ?m = None \<and> \<not> AllowSelfPayment ?m \<and>
            selfNode sampleServer \<noteq> replicate 33 0"
    by (simp add: emptyRequest_def sampleServer_def)
  have hi: "route_req ?i = None \<and> \<not> AllowSelfPayment ?i"
    and ht: "route_req ?t \<noteq> None"
    by (simp_all add: emptyRequest_def)
  from self_payment_rejected [of ?m sampleServer] hm dm
  have 1: "snd (extractPaymentIntent sampleServer ?m) =
             Some (ErrorsNew ''self-payments not allowed'') \<and>
           snd (sendPaymentSync sampleServer ?m) = []"
    by blast
  from self_payment_rejected [of ?i sampleServer] hm hi di
  have 2: "snd (extractPaymentIntent sampleServer ?i) =
             Some (ErrorsNew ''self-payments not allowed'')"
    by blast
  from self_payment_rejected [of ?t sampleServer samplePeer False] ht
  have 3: "extractPaymentIntent (sampleServer\<lparr>selfNode := samplePeer\<rparr>)
             (?t\<lparr>AllowSelfPayment := False\<rparr>) = extractPaymentIntent sampleServer ?t"
    by blast
  from dm di 1 2 3 show ?thesis by simp
qed

subsection \<open>Payments of amount zero\<close>

lemma invoice_zero_amount:
  "Decode r (PaymentRequest req) = Inr invoice \<Longrightarrow> inv_MilliAt invoice = None \<Longrightarrow>
   UnmarshallAmt r (Amt req) (AmtMAtoms req) = Inr 0 \<Longrightarrow>
   snd (extractInvoice r req p0) \<noteq> None \<and>
   (ValidatePayReqExpiry r invoice = None \<longrightarrow>
      snd (extractInvoice r req p0) =
        Some (ErrorsNew ''amount must be specified when paying a zero amount invoice''))"
  by (auto simp: extractInvoice_def Let_def split: option.splits)

lemma manual_no_dest:
  "Dest req = [] \<Longrightarrow> DestString req = [] \<Longrightarrow>
   snd (extractManual r req p0) = Some (ErrorsNew ''invalid key length'')"
  by (simp add: extractManual_def)

text \<open>
  C5, as amended. A payment of amount 0 without a route is refused, and \<open>sendPaymentSync\<close>
  makes no call to the router, in two cases. By invoice, when the invoice carries no amount:
  the error is "amount must be specified when paying a zero amount invoice" once the common
  restrictions and the expiry check have passed. By its fields, when no destination is given
  either: the error is "invalid key length" once the common restrictions have passed. A
  manual payment of amount 0 to a valid destination is not refused.
\<close>

theorem zero_amount_rejected:
  "(route_req req = None \<and> PaymentRequest req \<noteq> [] \<and>
    Decode r (PaymentRequest req) = Inr invoice \<and> inv_MilliAt invoice = None \<and>
    UnmarshallAmt r (Amt req) (AmtMAtoms req) = Inr 0 \<longrightarrow>
      snd (extractPaymentIntent r req) \<noteq> None \<and> snd (sendPaymentSync r req) = [] \<and>
      (snd (commonRestrictions r req
              (zeroIntent\<lparr>ignoreMaxOutboundAmt := IgnoreMaxOutboundAmt req\<rparr>)) = None \<and>
       ValidatePayReqExpiry r invoice = None \<longrightarrow>
         snd (extractPaymentIntent r req) =
           Some (ErrorsNew ''amount must be specified when paying a zero amount invoice''))) \<and>
   (route_req req = None \<and> PaymentRequest req = [] \<and> Dest req = [] \<and> DestString req = [] \<longrightarrow>
      snd (extractPaymentIntent r req) \<noteq> None \<and> snd (sendPaymentSync r req) = [] \<and>
      (snd (commonRestrictions r req
              (zeroIntent\<lparr>ignoreMaxOutboundAmt := IgnoreMaxOutboundAmt req\<rparr>)) = None \<longrightarrow>
         snd (extractPaymentIntent r req) = Some (ErrorsNew ''invalid key length'')))"
proof -
  let ?p0 = "zeroIntent\<lparr>ignoreMaxOutboundAmt := IgnoreMaxOutboundAmt req\<rparr>"
  obtain p1 e1 where c: "commonRestrictions r req ?p0 = (p1, e1)"
    by (cases "commonRestrictions r req ?p0")
  have inv: "snd (extractPaymentIntent r req) \<noteq> None \<and>
      (snd (commonRestrictions r req ?p0) = None \<and> ValidatePayReqExpiry r invoice = None \<longrightarrow>
         snd (extractPaymentIntent r req) =
           Some (ErrorsNew ''amount must be specified when paying a zero amount invoice''))"
    if "route_req req = None" "PaymentRequest req \<noteq> []"
      "Decode r (PaymentRequest req) = Inr invoice" "inv_MilliAt invoice = None"
      "UnmarshallAmt r (Amt req) (AmtMAtoms req) = Inr 0"
    using that c invoice_zero_amount [of r req invoice p1]
    by (cases e1) (auto simp: extract_after_common)
  have man: "snd (extractPaymentIntent r req) \<noteq> None \<and>
      (snd (commonRestrictions r req ?p0) = None \<longrightarrow>
         snd (extractPaymentIntent r req) = Some (ErrorsNew ''invalid key length''))"
    if "route_req req = None" "PaymentRequest req = []" "Dest req = []" "DestString req = []"
    using that c manual_no_dest [of req r p1]
    by (cases e1) (auto simp: extract_after_common)
  show ?thesis
    using inv man sync_no_call [of r req] by blast
qed


text \<open>
  C5, witness: on the sample node the invoice without amount, paid with amount 0, and the
  request with every field empty are refused with the two errors.
\<close>

theorem zero_amount_rejected_witness:
  "Decode sampleServer ''invoice-no-amount'' = Inr (sampleInvoice\<lparr>inv_MilliAt := None\<rparr>) \<and>
   UnmarshallAmt sampleServer 0 0 = Inr 0 \<and>
   snd (extractPaymentIntent sampleServer (emptyRequest\<lparr>PaymentRequest := ''invoice-no-amount''\<rparr>)) =
     Some (ErrorsNew ''amount must be specified when paying a zero amount invoice'') \<and>
   snd (sendPaymentSync sampleServer (emptyRequest\<lparr>PaymentRequest := ''invoice-no-amount''\<rparr>)) = [] \<and>
   snd (extractPaymentIntent sampleServer emptyRequest) = Some (ErrorsNew ''invalid key length'') \<and>
   snd (sendPaymentSync sampleServer emptyRequest) = []"
proof -
  let ?i = "emptyRequest\<lparr>PaymentRequest := ''invoice-no-amount''\<rparr>"
  let ?n = "sampleInvoice\<lparr>inv_MilliAt := None\<rparr>"
  have hi: "route_req ?i = None \<and> PaymentRequest ?i \<noteq> [] \<and>
      Decode sampleServer (PaymentRequest ?i) = Inr ?n \<and> inv_MilliAt ?n = None \<and>
      UnmarshallAmt sampleServer (Amt ?i) (AmtMAtoms ?i) = Inr 0"
    by (simp add: sample_defs)
  have ci: "snd (commonRestrictions sampleServer ?i
              (zeroIntent\<lparr>ignoreMaxOutboundAmt := IgnoreMaxOutboundAmt ?i\<rparr>)) = None \<and>
       ValidatePayReqExpiry sampleServer ?n = None"
    by (simp add: commonRestrictions_def sample_defs)
  have hm: "route_req emptyRequest = None \<and> PaymentRequest emptyRequest = [] \<and>
      Dest emptyRequest = [] \<and> DestString emptyRequest = []"
    by (simp add: emptyRequest_def)
  have cm: "snd (commonRestrictions sampleServer emptyRequest
              (zeroIntent\<lparr>ignoreMaxOutboundAmt := IgnoreMaxOutboundAmt emptyRequest\<rparr>)) = None"
    by (simp add: commonRestrictions_def sample_defs)
  from zero_amount_rejected [of ?i sampleServer ?n] hi ci
  have 1: "snd (extractPaymentIntent sampleServer ?i) =
        Some (ErrorsNew ''amount must be specified when paying a zero amount invoice'') \<and>
      snd (sendPaymentSync sampleServer ?i) = []"
    by blast
  from zero_amount_rejected [of emptyRequest sampleServer] hm cm
  have 2: "snd (extractPaymentIntent sampleServer emptyRequest) =
        Some (ErrorsNew ''invalid key length'') \<and>
      snd (sendPaymentSync sampleServer emptyRequest) = []"
    by blast
  have "Decode sampleServer ''invoice-no-amount'' = Inr ?n \<and> UnmarshallAmt sampleServer 0 0 = Inr 0"
    by (simp add: sample_defs)
  with 1 2 show ?thesis by simp
qed

lemma sample_zero_amount:
  "extractPaymentIntent (sampleServer\<lparr>FetchAllOpenChannels := Inr [sampleChannel 5000000 1000]\<rparr>)
      (emptyRequest\<lparr>Dest := samplePeer\<rparr>) =
     (zeroIntent\<lparr>dest := samplePeer, cltvLimit := 1008, cltvDelta := 9\<rparr>, None)"
  by (simp add: extract_defs sample_defs)

text \<open>
  C5, counterexample to the claim as stated: on the sample node with one channel of enough
  capacity, the manual payment of amount 0 to \<open>samplePeer\<close>, with no invoice and no route,
  resolves without error and is handed to the router.
\<close>

theorem zero_amount_manual_payment_dispatched:
  "Amt (emptyRequest\<lparr>Dest := samplePeer\<rparr>) = 0 \<and> AmtMAtoms (emptyRequest\<lparr>Dest := samplePeer\<rparr>) = 0 \<and>
   PaymentRequest (emptyRequest\<lparr>Dest := samplePeer\<rparr>) = [] \<and>
   route_req (emptyRequest\<lparr>Dest := samplePeer\<rparr>) = None \<and>
   snd (extractPaymentIntent
          (sampleServer\<lparr>FetchAllOpenChannels := Inr [sampleChannel 5000000 1000]\<rparr>)
          (emptyRequest\<lparr>Dest := samplePeer\<rparr>)) = None \<and>
   length (snd (sendPaymentSync
          (sampleServer\<lparr>FetchAllOpenChannels := Inr [sampleChannel 5000000 1000]\<rparr>)
          (emptyRequest\<lparr>Dest := samplePeer\<rparr>))) = 1"
  by (simp add: sendPaymentSync_def sample_zero_amount dispatchPaymentIntent_def
        checkCanSendPayment_def)
     (simp add: sample_defs zeroIntent_def word_sle_eq)

section \<open>Properties of checkCanSendPayment\<close>

lemma channelLoop_sufficient:
  "\<exists>channel \<in> set chans. eligible r channel \<and> amt \<le>s capacity_of r channel \<Longrightarrow>
   channelLoop r amt chans maxChanCap maxChanID = None"
proof (induction chans arbitrary: maxChanCap maxChanID)
  case Nil
  then show ?case by simp
next
  case (Cons channel rest)
  show ?case
  proof (cases "eligible r channel \<and> amt \<le>s capacity_of r channel")
    case True
    then show ?thesis
      by (auto simp: eligible_def capacity_of_def Let_def split: option.splits sum.splits)
  next
    case False
    with Cons.prems have "\<exists>c \<in> set rest. eligible r c \<and> amt \<le>s capacity_of r c"
      by auto
    then have "\<And>cap cid. channelLoop r amt rest cap cid = None"
      by (rule Cons.IH)
    then show ?thesis
      by (simp add: Let_def split: option.splits sum.splits)
  qed
qed

text \<open>
  C2, as amended. \<open>checkCanSendPayment\<close> returns nil when the bypass flag of the intent is
  set, whatever the channels are; it returns nil whenever the channels could be listed and
  one of them is eligible with a capacity (local balance in atoms minus the reserve) of at
  least the amount in atoms plus the fee estimate; and it fails with "no open channels" when
  the list is empty and the flag is not set.
\<close>

theorem preflight_succeeds_or_no_open_channels:
  "(ignoreMaxOutboundAmt payIntent \<longrightarrow> checkCanSendPayment r payIntent = None) \<and>
   (FetchAllOpenChannels r = Inr chans \<and>
    (\<exists>channel \<in> set chans.
        eligible r channel \<and> amt_of r payIntent \<le>s capacity_of r channel) \<longrightarrow>
      checkCanSendPayment r payIntent = None) \<and>
   (\<not> ignoreMaxOutboundAmt payIntent \<and> FetchAllOpenChannels r = Inr [] \<longrightarrow>
      checkCanSendPayment r payIntent = Some (ErrorsNew ''no open channels''))"
proof (intro conjI impI)
  assume "ignoreMaxOutboundAmt payIntent"
  then show "checkCanSendPayment r payIntent = None"
    by (simp add: checkCanSendPayment_def)
next
  assume a: "FetchAllOpenChannels r = Inr chans \<and>
    (\<exists>channel \<in> set chans.
        eligible r channel \<and> amt_of r payIntent \<le>s capacity_of r channel)"
  then have "chans \<noteq> []" by auto
  moreover from a have "channelLoop r (amt_of r payIntent) chans 0 0 = None"
    by (simp add: channelLoop_sufficient)
  ultimately show "checkCanSendPayment r payIntent = None"
    using a by (simp add: checkCanSendPayment_def amt_of_def Let_def)
next
  assume "\<not> ignoreMaxOutboundAmt payIntent \<and> FetchAllOpenChannels r = Inr []"
  then show "checkCanSendPayment r payIntent = Some (ErrorsNew ''no open channels'')"
    by (simp add: checkCanSendPayment_def)
qed

text \<open>
  C2, counterexample to the claim as stated: the sample node has no open channel, and with
  the bypass flag set the check returns nil, not "no open channels".
\<close>

theorem bypass_flag_skips_channel_list:
  "FetchAllOpenChannels sampleServer = Inr [] \<and>
   checkCanSendPayment sampleServer (zeroIntent\<lparr>ignoreMaxOutboundAmt := True\<rparr>) = None"
  by (simp add: checkCanSendPayment_def sampleServer_def)

text \<open>
  C2, witness: a payment of 1000 atoms (1360 with the fee estimate) passes on the sample node
  with a channel without capacity and one with 4000 atoms of capacity; on the sample node
  without channels the check passes with the flag and fails with "no open channels" without.
\<close>

theorem preflight_succeeds_or_no_open_channels_witness:
  "eligible sampleServer (sampleChannel 5000000 1000) \<and>
   amt_of sampleServer (zeroIntent\<lparr>mat := 1000000\<rparr>) = 1360 \<and>
   capacity_of sampleServer (sampleChannel 5000000 1000) = 4000 \<and>
   checkCanSendPayment
     (sampleServer\<lparr>FetchAllOpenChannels := Inr [sampleChannel 0 1000, sampleChannel 5000000 1000]\<rparr>)
     (zeroIntent\<lparr>mat := 1000000\<rparr>) = None \<and>
   checkCanSendPayment sampleServer (zeroIntent\<lparr>ignoreMaxOutboundAmt := True\<rparr>) = None \<and>
   checkCanSendPayment sampleServer zeroIntent = Some (ErrorsNew ''no open channels'')"
proof -
  let ?chans = "[sampleChannel 0 1000, sampleChannel 5000000 1000]"
  let ?r = "sampleServer\<lparr>FetchAllOpenChannels := Inr ?chans\<rparr>"
  let ?p = "zeroIntent\<lparr>mat := 1000000\<rparr>"
  have e: "eligible ?r (sampleChannel 5000000 1000)" "eligible sampleServer (sampleChannel 5000000 1000)"
    by (simp_all add: eligible_def sample_defs)
  have a: "amt_of ?r ?p = 1360" "amt_of sampleServer ?p = 1360"
    by (simp_all add: amt_of_def sample_defs zeroIntent_def)
  have c: "capacity_of ?r (sampleChannel 5000000 1000) = 4000"
    "capacity_of sampleServer (sampleChannel 5000000 1000) = 4000"
    by (simp_all add: capacity_of_def sample_defs)
  have le: "(1360 :: 64 word) \<le>s 4000"
    by (simp add: word_sle_eq)
  have f: "FetchAllOpenChannels ?r = Inr ?chans" by simp
  have "\<exists>channel \<in> set ?chans. eligible ?r channel \<and> amt_of ?r ?p \<le>s capacity_of ?r channel"
    using e a c le by simp
  with preflight_succeeds_or_no_open_channels [of ?p ?r ?chans] f
  have 1: "checkCanSendPayment ?r ?p = None" by blast
  from preflight_succeeds_or_no_open_channels [of "zeroIntent\<lparr>ignoreMaxOutboundAmt := True\<rparr>" sampleServer]
  have 2: "checkCanSendPayment sampleServer (zeroIntent\<lparr>ignoreMaxOutboundAmt := True\<rparr>) = None"
    by simp
  have "\<not> ignoreMaxOutboundAmt zeroIntent \<and> FetchAllOpenChannels sampleServer = Inr []"
    by (simp add: zeroIntent_def sampleServer_def)
  with preflight_succeeds_or_no_open_channels [of zeroIntent sampleServer]
  have 3: "checkCanSendPayment sampleServer zeroIntent = Some (ErrorsNew ''no open channels'')"
    by blast
  from e a c 1 2 3 show ?thesis by simp
qed

text \<open>
  C3, the code at the failing input: the sample node's only channel is eligible, its local
  balance is 0 and its reserve 1000 atoms (so its capacity is negative and never exceeds the
  initial \<open>maxChanCap = 0\<close>); a payment of 5 atoms is refused with "no online channels
  found".
\<close>

theorem eligible_channel_reported_offline:
  "eligible (sampleServer\<lparr>FetchAllOpenChannels := Inr [sampleChannel 0 1000]\<rparr>)
     (sampleChannel 0 1000) \<and>
   checkCanSendPayment (sampleServer\<lparr>FetchAllOpenChannels := Inr [sampleChannel 0 1000]\<rparr>)
     (zeroIntent\<lparr>mat := 5000\<rparr>) = Some (ErrorsNew ''no online channels found'')"
  by (simp add: checkCanSendPayment_def eligible_def sample_defs zeroIntent_def word_sle_eq
        word_sless_alt)

section \<open>Properties of CloseChannel's relay loop\<close>

lemma forceCloseInv_alt:
  "forceCloseInv txid s \<longleftrightarrow>
     (updateStream s = [] \<and>
        (\<exists>us. updateChan s = pendingUpdate txid 0 # us \<and>
              list_all (\<lambda>u. u = channelCloseUpdate txid True) us)) \<or>
     (updateStream s = [] \<and> returned s \<noteq> None \<and>
        list_all (\<lambda>u. u = channelCloseUpdate txid True) (updateChan s)) \<or>
     (updateStream s = [ClosePending txid 0] \<and>
        list_all (\<lambda>u. u = channelCloseUpdate txid True) (updateChan s)) \<or>
     (updateStream s = [ClosePending txid 0, ChanClose txid] \<and> returned s \<noteq> None)"
  by (cases "updateChan s") (simp_all add: forceCloseInv_def)

lemma forceCloseInv_start: "forceCloseInv txid (forceCloseStart txid)"
  by (simp add: forceCloseInv_alt forceCloseStart_def)

lemma forceCloseInv_callback:
  "forceCloseInv txid s \<Longrightarrow> closeStep txid CallbackRuns s = Some s' \<Longrightarrow> forceCloseInv txid s'"
  by (auto simp: forceCloseInv_alt closeStep_def split: if_splits)

lemma forceCloseInv_fails:
  "forceCloseInv txid s \<Longrightarrow> closeStep txid (GoroutineFails err) s = Some s' \<Longrightarrow>
   forceCloseInv txid s'"
  by (auto simp: forceCloseInv_alt closeStep_def split: if_splits)

lemma forceCloseInv_quit:
  "forceCloseInv txid s \<Longrightarrow> closeStep txid QuitFires s = Some s' \<Longrightarrow> forceCloseInv txid s'"
  by (auto simp: forceCloseInv_alt closeStep_def)

lemma forceCloseInv_recvErr:
  "forceCloseInv txid s \<Longrightarrow> closeLoopIteration RecvErr sendErr s = Some s' \<Longrightarrow>
   forceCloseInv txid s'"
  by (auto simp: forceCloseInv_alt closeLoopIteration_def split: list.splits)

lemma forceCloseInv_recvQuit:
  "forceCloseInv txid s \<Longrightarrow> closeLoopIteration RecvQuit sendErr s = Some s' \<Longrightarrow>
   forceCloseInv txid s'"
  by (auto simp: forceCloseInv_alt closeLoopIteration_def split: if_splits)

lemma forceCloseInv_recvUpdate:
  "forceCloseInv txid s \<Longrightarrow> returned s = None \<Longrightarrow>
   closeLoopIteration RecvUpdate sendErr s = Some s' \<Longrightarrow> forceCloseInv txid s'"
  by (auto simp: forceCloseInv_alt closeLoopIteration_def createRPCCloseUpdate_def Let_def
           split: list.splits option.splits)

lemma forceCloseInv_step:
  "forceCloseInv txid s \<Longrightarrow> closeStep txid ev s = Some s' \<Longrightarrow> forceCloseInv txid s'"
proof (cases ev)
  case (LoopSelects c sendErr)
  assume i: "forceCloseInv txid s" and st: "closeStep txid ev s = Some s'"
  from st LoopSelects have r: "returned s = None"
    and it: "closeLoopIteration c sendErr s = Some s'"
    by (auto simp: closeStep_def split: if_splits)
  show ?thesis
    using i r it forceCloseInv_recvErr forceCloseInv_recvQuit forceCloseInv_recvUpdate
    by (cases c) blast+
qed (auto dest: forceCloseInv_callback forceCloseInv_fails forceCloseInv_quit)

lemma forceCloseInv_run:
  "forceCloseInv txid s \<Longrightarrow> closeRun txid evs s = Some s' \<Longrightarrow> forceCloseInv txid s'"
  by (induction evs arbitrary: s) (auto split: option.splits dest: forceCloseInv_step)


lemma quit_case_returns:
  "closeStep txid (LoopSelects RecvQuit sendErr) s = Some s' \<Longrightarrow>
   returned s = None \<and> returned s' = Some None \<and> updateStream s' = updateStream s"
  by (auto simp: closeStep_def closeLoopIteration_def split: if_splits)

lemma running_stream_has_no_close:
  "forceCloseInv txid s \<Longrightarrow> returned s = None \<Longrightarrow>
   updateStream s = [] \<or> updateStream s = [ClosePending txid 0]"
  by (auto simp: forceCloseInv_alt)

text \<open>
  C7, as amended. In every run of a force-close call from the moment it enters the loop, whatever the
  goroutine and the scheduler do: what was delivered on \<open>updateStream\<close> is nothing, or the
  pending update with the closing transaction's id, or that update followed by the
  channel-close update; so a channel-close update is never delivered before the pending one.
  When the loop's select takes the quit case, the call returns nil, delivers nothing more, and
  no channel-close update was delivered during the call. Once the quit signal has fired and
  the loop is still running, the select can take the quit case (the loop is not blocked), and
  it can take no other case when no update and no error is waiting. (With an update or an
  error waiting as well, Go's select may take either case.)
\<close>

theorem force_close_pending_first_quit_clean:
  "closeRun closingTxid evs (forceCloseStart closingTxid) = Some s \<longrightarrow>
     (updateStream s = [] \<or> updateStream s = [ClosePending closingTxid 0] \<or>
      updateStream s = [ClosePending closingTxid 0, ChanClose closingTxid]) \<and>
     (closeStep closingTxid (LoopSelects RecvQuit sendErr) s = Some s' \<longrightarrow>
        returned s' = Some None \<and> updateStream s' = updateStream s \<and>
        (\<forall>txid. ChanClose txid \<notin> set (updateStream s'))) \<and>
     (quit s \<and> returned s = None \<longrightarrow>
        closeStep closingTxid (LoopSelects RecvQuit sendErr) s \<noteq> None \<and>
        (updateChan s = [] \<and> errChan s = [] \<longrightarrow>
           (\<forall>c e. closeStep closingTxid (LoopSelects c e) s \<noteq> None \<longrightarrow> c = RecvQuit)))"
proof (intro impI conjI)
  assume run: "closeRun closingTxid evs (forceCloseStart closingTxid) = Some s"
  then have i: "forceCloseInv closingTxid s"
    using forceCloseInv_run forceCloseInv_start by blast
  then show "updateStream s = [] \<or> updateStream s = [ClosePending closingTxid 0] \<or>
      updateStream s = [ClosePending closingTxid 0, ChanClose closingTxid]"
    by (auto simp: forceCloseInv_alt)
  {
    assume q: "closeStep closingTxid (LoopSelects RecvQuit sendErr) s = Some s'"
    then have r: "returned s = None \<and> returned s' = Some None \<and>
        updateStream s' = updateStream s"
      by (rule quit_case_returns)
    then show "returned s' = Some None" and "updateStream s' = updateStream s"
      by simp_all
    from i r have "updateStream s = [] \<or> updateStream s = [ClosePending closingTxid 0]"
      using running_stream_has_no_close by blast
    with r show "\<forall>txid. ChanClose txid \<notin> set (updateStream s')"
      by auto
  }
  {
    assume q: "quit s \<and> returned s = None"
    then show "closeStep closingTxid (LoopSelects RecvQuit sendErr) s \<noteq> None"
      by (simp add: closeStep_def closeLoopIteration_def)
    assume em: "updateChan s = [] \<and> errChan s = []"
    show "\<forall>c e. closeStep closingTxid (LoopSelects c e) s \<noteq> None \<longrightarrow> c = RecvQuit"
    proof (intro allI impI)
      fix c e
      assume "closeStep closingTxid (LoopSelects c e) s \<noteq> None"
      with q em show "c = RecvQuit"
        by (cases c) (auto simp: closeStep_def closeLoopIteration_def)
    qed
  }
qed

lemmas close_defs =
  closeStep_def closeLoopIteration_def createRPCCloseUpdate_def forceCloseStart_def

text \<open>
  C7, witness: the pending update is delivered, the quit signal fires, the select takes the
  quit case and the call returns nil with only the pending update delivered; and in the run
  in which the closure runs and the loop receives twice, the pending update comes first.
\<close>

theorem force_close_pending_first_quit_clean_witness:
  "closeRun (replicate 32 1) [LoopSelects RecvUpdate None, QuitFires]
     (forceCloseStart (replicate 32 1)) =
     Some \<lparr> updateChan = [], errChan = [], quit = True,
            updateStream = [ClosePending (replicate 32 1) 0], returned = None \<rparr> \<and>
   closeStep (replicate 32 1) (LoopSelects RecvQuit None)
     \<lparr> updateChan = [], errChan = [], quit = True,
       updateStream = [ClosePending (replicate 32 1) 0], returned = None \<rparr> =
     Some \<lparr> updateChan = [], errChan = [], quit = True,
            updateStream = [ClosePending (replicate 32 1) 0], returned = Some None \<rparr> \<and>
   ChanClose (replicate 32 1) \<notin> set [ClosePending (replicate 32 1) 0] \<and>
   updateStream (the (closeRun (replicate 32 1)
       [CallbackRuns, LoopSelects RecvUpdate None, LoopSelects RecvUpdate None]
       (forceCloseStart (replicate 32 1)))) =
     [ClosePending (replicate 32 1) 0, ChanClose (replicate 32 1)]"
proof -
  let ?t = "replicate 32 (1 :: byte)"
  let ?s = "\<lparr> updateChan = [], errChan = [], quit = True,
            updateStream = [ClosePending ?t 0], returned = None \<rparr>"
  let ?s' = "\<lparr> updateChan = [], errChan = [], quit = True,
            updateStream = [ClosePending ?t 0], returned = Some None \<rparr>"
  have run: "closeRun ?t [LoopSelects RecvUpdate None, QuitFires] (forceCloseStart ?t) = Some ?s"
    by (simp add: close_defs)
  have st: "closeStep ?t (LoopSelects RecvQuit None) ?s = Some ?s'"
    by (simp add: close_defs)
  have full: "closeRun ?t [CallbackRuns, LoopSelects RecvUpdate None, LoopSelects RecvUpdate None]
      (forceCloseStart ?t) =
    Some \<lparr> updateChan = [], errChan = [], quit = False,
           updateStream = [ClosePending ?t 0, ChanClose ?t], returned = Some None \<rparr>"
    by (simp add: close_defs)
  from force_close_pending_first_quit_clean
    [of ?t "[LoopSelects RecvUpdate None, QuitFires]" ?s None ?s'] run st
  have "\<forall>txid. ChanClose txid \<notin> set (updateStream ?s')" by blast
  then have "ChanClose ?t \<notin> set [ClosePending ?t 0]" by simp
  with run st full show ?thesis by simp
qed

text \<open>
  C7, counterexample to the claim as stated. The pending update is delivered, the closure
  runs, and then the quit signal fires with the channel-close update waiting: the select may
  take the update, and the channel-close update is delivered after the signal. And when the
  goroutine has reported an error before the signal fires, the select may take the error, and
  the call returns it.
\<close>

theorem quit_fired_then_close_delivered:
  "closeRun (replicate 32 1) [LoopSelects RecvUpdate None, CallbackRuns, QuitFires]
     (forceCloseStart (replicate 32 1)) =
     Some \<lparr> updateChan = [channelCloseUpdate (replicate 32 1) True], errChan = [], quit = True,
            updateStream = [ClosePending (replicate 32 1) 0], returned = None \<rparr> \<and>
   closeRun (replicate 32 1)
     [LoopSelects RecvUpdate None, CallbackRuns, QuitFires, LoopSelects RecvUpdate None]
     (forceCloseStart (replicate 32 1)) =
     Some \<lparr> updateChan = [], errChan = [], quit = True,
            updateStream = [ClosePending (replicate 32 1) 0, ChanClose (replicate 32 1)],
            returned = Some None \<rparr> \<and>
   closeRun (replicate 32 1)
     [LoopSelects RecvUpdate None, GoroutineFails (ErrorsNew ''chain notifier shutting down''),
      QuitFires, LoopSelects RecvErr None]
     (forceCloseStart (replicate 32 1)) =
     Some \<lparr> updateChan = [], errChan = [], quit = True,
            updateStream = [ClosePending (replicate 32 1) 0],
            returned = Some (Some (ErrorsNew ''chain notifier shutting down'')) \<rparr>"
  by (simp add: close_defs)

section \<open>Properties of OpenChannelSync\<close>

text \<open>
  C10. When the quit signal has fired, the quit case of OpenChannelSync's select returns a nil
  channel point and a nil error; and when it fires while the method waits (no update and no
  error has arrived), that is the only case the select can take, so the caller gets neither a
  result nor an error.
\<close>

theorem open_sync_quit_returns_nothing:
  "(quit s \<longrightarrow> openChannelSyncSelect RecvQuit s = Some (Returns None None)) \<and>
   (quit s \<and> updateChan s = [] \<and> errChan s = [] \<and> openChannelSyncSelect c s = Some res \<longrightarrow>
      c = RecvQuit \<and> res = Returns None None)"
  by (auto simp: openChannelSyncSelect_def split: selectCase.splits)

text \<open>
  C10, witness: with both feeds empty and the quit signal fired, the select returns
  (nil, nil) by its quit case and can take neither of the other two.
\<close>

theorem open_sync_quit_returns_nothing_witness:
  "quit \<lparr> updateChan = [] :: OpenStatusUpdate list, errChan = [], quit = True \<rparr> \<and>
   openChannelSyncSelect RecvQuit \<lparr> updateChan = [], errChan = [], quit = True \<rparr> =
     Some (Returns None None) \<and>
   openChannelSyncSelect RecvUpdate \<lparr> updateChan = [], errChan = [], quit = True \<rparr> = None \<and>
   openChannelSyncSelect RecvErr \<lparr> updateChan = [], errChan = [], quit = True \<rparr> = None"
proof -
  let ?s = "\<lparr> updateChan = [] :: OpenStatusUpdate list, errChan = [], quit = True \<rparr>"
  have q: "quit ?s" by simp
  with open_sync_quit_returns_nothing [of ?s]
  have 1: "openChannelSyncSelect RecvQuit ?s = Some (Returns None None)" by blast
  have e: "quit ?s \<and> updateChan ?s = [] \<and> errChan ?s = []" by simp
  have 2: "openChannelSyncSelect RecvUpdate ?s = None"
  proof (cases "openChannelSyncSelect RecvUpdate ?s")
    case (Some res)
    with open_sync_quit_returns_nothing [of ?s RecvUpdate res] e show ?thesis by blast
  qed simp
  have 3: "openChannelSyncSelect RecvErr ?s = None"
  proof (cases "openChannelSyncSelect RecvErr ?s")
    case (Some res)
    with open_sync_quit_returns_nothing [of ?s RecvErr res] e show ?thesis by blast
  qed simp
  from q 1 2 3 show ?thesis by simp
qed

section \<open>Properties of demultiplexReq\<close>

text \<open>
  What the two selects do, for every value of the timeout variable: a call of
  \<open>demultiplexReq\<close> whose second select finds no reply in \<open>respChan\<close> never returns true,
  and a call returns true only when the request was sent and the reply taken from
  \<open>respChan\<close> is true. Once the timeout has elapsed, or the stream's \<open>quit\<close> or the
  server's \<open>r.quit\<close> is closed, neither select is blocked: each has a case it can take;
  and every case the first select can take returns false unless the request can still be
  sent, every case the second can take returns false unless a reply is there.
\<close>

lemma acceptor_rejects_without_reply:
  "(respChan w2 = [] \<and> demultiplexReq timeout c1 w1 c2 w2 = Some b \<longrightarrow> \<not> b) \<and>
   (demultiplexReq timeout c1 w1 c2 w2 = Some True \<longrightarrow>
      c1 = SendsRequest \<and> c2 = RecvResp \<and> (\<exists>rest. respChan w2 = True # rest)) \<and>
   (timeout \<le> elapsed w \<or> streamQuit w \<or> serverQuit w \<longrightarrow>
      (\<exists>c. sendSelect timeout c w \<noteq> None) \<and> (\<exists>c. respSelect timeout c w \<noteq> None) \<and>
      (\<not> receiverReady w \<longrightarrow> (\<forall>c res. sendSelect timeout c w = Some res \<longrightarrow> res = Some False)) \<and>
      (respChan w = [] \<longrightarrow> (\<forall>c res. respSelect timeout c w = Some res \<longrightarrow> res = False)))"
proof (intro conjI impI)
  assume "respChan w2 = [] \<and> demultiplexReq timeout c1 w1 c2 w2 = Some b"
  then show "\<not> b"
    by (auto simp: demultiplexReq_def sendSelect_def respSelect_def
             split: acceptorCase.splits option.splits if_splits)
next
  assume a: "demultiplexReq timeout c1 w1 c2 w2 = Some True"
  then show "c1 = SendsRequest"
    by (auto simp: demultiplexReq_def sendSelect_def
             split: acceptorCase.splits option.splits if_splits)
  from a show "c2 = RecvResp"
    by (auto simp: demultiplexReq_def sendSelect_def respSelect_def
             split: acceptorCase.splits option.splits if_splits)
  from a show "\<exists>rest. respChan w2 = True # rest"
    by (auto simp: demultiplexReq_def sendSelect_def respSelect_def
             split: acceptorCase.splits option.splits if_splits list.splits)
next
  assume e: "timeout \<le> elapsed w \<or> streamQuit w \<or> serverQuit w"
  then have "sendSelect timeout Timeout w \<noteq> None \<or> sendSelect timeout StreamQuit w \<noteq> None \<or>
      sendSelect timeout ServerQuit w \<noteq> None"
    by (auto simp: sendSelect_def)
  then show "\<exists>c. sendSelect timeout c w \<noteq> None" by blast
  from e have "respSelect timeout Timeout w \<noteq> None \<or> respSelect timeout StreamQuit w \<noteq> None \<or>
      respSelect timeout ServerQuit w \<noteq> None"
    by (auto simp: respSelect_def)
  then show "\<exists>c. respSelect timeout c w \<noteq> None" by blast
  {
    assume "\<not> receiverReady w"
    then show "\<forall>c res. sendSelect timeout c w = Some res \<longrightarrow> res = Some False"
      by (auto simp: sendSelect_def split: acceptorCase.splits if_splits)
  }
  {
    assume "respChan w = []"
    then show "\<forall>c res. respSelect timeout c w = Some res \<longrightarrow> res = False"
      by (auto simp: respSelect_def split: acceptorCase.splits if_splits)
  }
qed

text \<open>
  C8, the code at the failing input. The request was sent while the loop was serving; one
  second later the stream has been torn down (the loop has returned and the deferred
  \<open>RemoveAcceptor\<close> runs), no reply has come and the server is not quitting. The second
  select can take none of its cases: the decide call stays blocked. It returns false when
  the timeout has elapsed, or once \<open>close(quit)\<close> has run.
\<close>

theorem decide_blocked_after_teardown:
  "demultiplexReq defaultAcceptorTimeout SendsRequest (streamWait Serving True 0 [] False)
     RecvResp (streamWait Removing False 1000000000 [] False) = None \<and>
   demultiplexReq defaultAcceptorTimeout SendsRequest (streamWait Serving True 0 [] False)
     Timeout (streamWait Removing False 1000000000 [] False) = None \<and>
   demultiplexReq defaultAcceptorTimeout SendsRequest (streamWait Serving True 0 [] False)
     StreamQuit (streamWait Removing False 1000000000 [] False) = None \<and>
   demultiplexReq defaultAcceptorTimeout SendsRequest (streamWait Serving True 0 [] False)
     ServerQuit (streamWait Removing False 1000000000 [] False) = None \<and>
   demultiplexReq defaultAcceptorTimeout SendsRequest (streamWait Serving True 0 [] False)
     SendsRequest (streamWait Removing False 1000000000 [] False) = None \<and>
   demultiplexReq defaultAcceptorTimeout SendsRequest (streamWait Serving True 0 [] False)
     Timeout (streamWait Removing False 15000000000 [] False) = Some False \<and>
   demultiplexReq defaultAcceptorTimeout SendsRequest (streamWait Serving True 0 [] False)
     StreamQuit (streamWait Closed False 1000000000 [] False) = Some False"
  by (simp add: demultiplexReq_def sendSelect_def respSelect_def streamWait_def
        defaultAcceptorTimeout_def Second_def)

end
